theory Spec2Isabelle
  imports
    Complex_Main
    "HOL-Library.Sublist"
    "HOL-Library.Product_Lexorder"
    "HOL-Library.List_Lexorder"
    "HOL-Library.Char_ord"
begin

section \<open>Strings\<close>

text \<open>
  Python strings are modelled as \<open>string\<close> (lists of characters). \<open>str.lower\<close> is
  modelled on ASCII text: the letters A--Z are mapped to a--z and every other character
  is left as it is. The substring test \<open>kw in text\<close> is \<open>sublist kw text\<close>
  (\<open>\<exists>ps ss. text = ps @ kw @ ss\<close>).
\<close>

definition lower_char :: "char \<Rightarrow> char" where
  "lower_char c =
     (let n = (of_char c :: nat) in if 65 \<le> n \<and> n \<le> 90 then char_of (n + 32) else c)"

definition lower :: "string \<Rightarrow> string" where
  "lower s = map lower_char s"

section \<open>patch_extractor.classify_patch\<close>

definition patch_keywords :: "string list" where
  "patch_keywords =
     [''patch'', ''update'', ''hotfix'', ''fix'', ''bug'', ''balance'',
      ''expansion'', ''dlc'', ''content update'', ''new feature'',
      ''maintenance'', ''adjustment'', ''tweak'', ''improvement'']"

definition major_indicators :: "string list" where
  "major_indicators =
     [''major update'', ''major patch'', ''expansion'', ''new content'',
      ''new feature'', ''new game mode'', ''new map'', ''new character'',
      ''gameplay change'', ''mechanic change'', ''overhaul'',
      ''substantial'', ''significant'', ''massive'', ''complete rework'']"

definition minor_indicators :: "string list" where
  "minor_indicators =
     [''hotfix'', ''bug fix'', ''small fix'', ''minor'', ''performance'',
      ''cosmetic'', ''visual'', ''balance adjustment'', ''tweak'',
      ''adjustment'', ''stability'']"

text \<open>
  The result is \<open>None\<close> for a text that is not a patch and otherwise the triple
  \<open>(is_patch, is_major, classification_reason)\<close> the source returns.
\<close>

definition classify_patch :: "string \<Rightarrow> string \<Rightarrow> (bool \<times> bool \<times> string) option" where
  "classify_patch title contents =
     (let combined = lower (title @ '' '' @ contents);
          is_patch = list_ex (\<lambda>kw. sublist kw combined) patch_keywords
      in if \<not> is_patch then None
         else
           let is_major_candidate = list_ex (\<lambda>ind. sublist ind combined) major_indicators;
               is_minor_candidate = list_ex (\<lambda>ind. sublist ind combined) minor_indicators;
               (is_major, reason) =
                 (if is_minor_candidate \<and> \<not> is_major_candidate then (False, ''minor_keywords'')
                  else if is_major_candidate then (True, ''major_keywords'')
                  else if sublist ''bug fix'' combined \<or> sublist ''hotfix'' combined
                       then (False, ''default_minor'')
                       else (True, ''default_major''))
           in Some (True, is_major, reason))"

text \<open>
  The tie-break policy in the words of the specification, over the lowercased
  concatenation \<open>text\<close> of title and body. The patch keyword set is the one the
  specification lists; the indicator sets are the enumerated ones.
\<close>

definition tie_break_policy :: "string \<Rightarrow> (bool \<times> bool \<times> string) option" where
  "tie_break_policy text =
     (let patch_kw = (\<exists>kw \<in> {''patch'', ''update'', ''hotfix'', ''fix'', ''bug'', ''balance'',
                              ''expansion'', ''dlc'', ''content update'', ''new feature'',
                              ''maintenance'', ''adjustment'', ''tweak'', ''improvement''}.
                        sublist kw text);
          minor = (\<exists>k \<in> set minor_indicators. sublist k text);
          major = (\<exists>k \<in> set major_indicators. sublist k text)
      in if \<not> patch_kw then None
         else if minor \<and> \<not> major then Some (True, False, ''minor_keywords'')
         else if major then Some (True, True, ''major_keywords'')
         else if sublist ''bug fix'' text \<or> sublist ''hotfix'' text
              then Some (True, False, ''default_minor'')
              else Some (True, True, ''default_major''))"

section \<open>scraper.cache.SteamCache\<close>

text \<open>
  The table \<open>cache\<close> of the SQLite file is a list of rows
  \<open>((endpoint, appid), (data, timestamp))\<close>; its primary key is \<open>(endpoint, appid)\<close>.
  \<open>data\<close> is the JSON text of the payload: \<open>json.dumps\<close> and \<open>json.loads\<close>
  are the parameters \<open>dumps\<close> and \<open>loads\<close>. The reading of the clock \<open>time.time()\<close>
  is the parameter \<open>now\<close> of each operation.
\<close>

type_synonym cache_key = "string \<times> int"

record SteamCache =
  ttl_seconds :: real
  cache_table :: "(cache_key \<times> (string \<times> real)) list"

definition init_db :: "real \<Rightarrow> SteamCache" where
  "init_db ttl = \<lparr>ttl_seconds = ttl, cache_table = []\<rparr>"

fun delete_rows :: "cache_key \<Rightarrow> (cache_key \<times> 'r) list \<Rightarrow> (cache_key \<times> 'r) list" where
  "delete_rows k [] = []"
| "delete_rows k (r # rs) = (if fst r = k then delete_rows k rs else r # delete_rows k rs)"

definition cache_get ::
  "(string \<Rightarrow> 'v) \<Rightarrow> real \<Rightarrow> SteamCache \<Rightarrow> string \<Rightarrow> int \<Rightarrow> 'v option \<times> SteamCache" where
  "cache_get loads now c endpoint appid =
     (case map_of (cache_table c) (endpoint, appid) of
        None \<Rightarrow> (None, c)
      | Some (data_str, ts) \<Rightarrow>
          if now - ts > ttl_seconds c
          then (None, c\<lparr>cache_table := delete_rows (endpoint, appid) (cache_table c)\<rparr>)
          else (Some (loads data_str), c))"

definition cache_set ::
  "('v \<Rightarrow> string) \<Rightarrow> real \<Rightarrow> SteamCache \<Rightarrow> string \<Rightarrow> int \<Rightarrow> 'v \<Rightarrow> SteamCache" where
  "cache_set dumps now c endpoint appid data =
     c\<lparr>cache_table :=
         delete_rows (endpoint, appid) (cache_table c) @ [((endpoint, appid), (dumps data, now))]\<rparr>"

definition cache_clear :: "SteamCache \<Rightarrow> SteamCache" where
  "cache_clear c = c\<lparr>cache_table := []\<rparr>"

definition get_stats :: "SteamCache \<Rightarrow> nat \<times> (string \<times> nat) list" where
  "get_stats c =
     (length (cache_table c),
      map (\<lambda>e. (e, length (filter (\<lambda>r. fst (fst r) = e) (cache_table c))))
          (remdups (map (\<lambda>r. fst (fst r)) (cache_table c))))"

definition stats_total :: "SteamCache \<Rightarrow> nat" where
  "stats_total c = fst (get_stats c)"

definition primary_key_ok :: "SteamCache \<Rightarrow> bool" where
  "primary_key_ok c = distinct (map fst (cache_table c))"

definition demo_cache :: SteamCache where
  "demo_cache = \<lparr>ttl_seconds = 604800, cache_table = [((''store_appdetails'', 570), (''old'', 0))]\<rparr>"

section \<open>Dates and times\<close>

text \<open>
  A \<open>datetime\<close> of the Python library, to the second. Two datetimes compare as their
  fields do, from the year down. The library functions that read a clock or parse a
  text (\<open>utcfromtimestamp\<close>, \<open>fromisoformat\<close>, \<open>strptime\<close>) belong to the environment
  (see \<open>world\<close> below); \<open>strftime\<close> is written out for the three formats the program
  uses, for years of four digits.
\<close>

record datetime =
  year :: int
  month :: int
  day :: int
  hour :: int
  minute :: int
  second :: int

definition dt_key :: "datetime \<Rightarrow> int \<times> int \<times> int \<times> int \<times> int \<times> int" where
  "dt_key d = (year d, month d, day d, hour d, minute d, second d)"

definition dt_less :: "datetime \<Rightarrow> datetime \<Rightarrow> bool" where
  "dt_less a b = (dt_key a < dt_key b)"

definition valid_datetime :: "datetime \<Rightarrow> bool" where
  "valid_datetime d =
     (1000 \<le> year d \<and> year d \<le> 9999 \<and> 1 \<le> month d \<and> month d \<le> 12 \<and>
      1 \<le> day d \<and> day d \<le> 31 \<and> 0 \<le> hour d \<and> hour d \<le> 23 \<and>
      0 \<le> minute d \<and> minute d \<le> 59 \<and> 0 \<le> second d \<and> second d \<le> 59)"

definition digit :: "int \<Rightarrow> char" where
  "digit n = char_of (48 + nat (n mod 10))"

definition pad2 :: "int \<Rightarrow> string" where
  "pad2 n = [digit (n div 10), digit n]"

definition pad4 :: "int \<Rightarrow> string" where
  "pad4 n = [digit (n div 1000), digit (n div 100), digit (n div 10), digit n]"

text \<open>\<open>d.strftime("%Y-%m-%d %H:%M:%S")\<close>\<close>

definition strftime_ymd_hms :: "datetime \<Rightarrow> string" where
  "strftime_ymd_hms d =
     pad4 (year d) @ ''-'' @ pad2 (month d) @ ''-'' @ pad2 (day d) @ '' '' @
     pad2 (hour d) @ '':'' @ pad2 (minute d) @ '':'' @ pad2 (second d)"

text \<open>
  A first-of-month timestamp is the pair \<open>(year, month)\<close>; pairs compare
  lexicographically, which is the order of time. \<open>strftime_ymd\<close> and \<open>strftime_ym\<close> are
  \<open>strftime('%Y-%m-%d')\<close> and \<open>strftime('%Y-%m')\<close> of such a timestamp, and
  \<open>add_months\<close> is \<open>+ pd.DateOffset(months=k)\<close> on it.
\<close>

type_synonym month_start = "int \<times> int"

definition strftime_ymd :: "month_start \<Rightarrow> string" where
  "strftime_ymd m = pad4 (fst m) @ ''-'' @ pad2 (snd m) @ ''-01''"

definition strftime_ym :: "month_start \<Rightarrow> string" where
  "strftime_ym m = pad4 (fst m) @ ''-'' @ pad2 (snd m)"

definition add_months :: "month_start \<Rightarrow> int \<Rightarrow> month_start" where
  "add_months m k = (let t = fst m * 12 + (snd m - 1) + k in (t div 12, t mod 12 + 1))"

text \<open>\<open>str(appid)\<close>, the decimal text of an integer.\<close>

fun str_nat :: "nat \<Rightarrow> string" where
  "str_nat n = (if n < 10 then [digit (int n)] else str_nat (n div 10) @ [digit (int n)])"

declare str_nat.simps [simp del]

definition str_int :: "int \<Rightarrow> string" where
  "str_int i = (if i < 0 then CHR ''-'' # str_nat (nat (- i)) else str_nat (nat i))"

text \<open>
  Python's \<open>min\<close> and \<open>max\<close> of a sequence; \<open>None\<close> stands for the ValueError on an
  empty one.
\<close>

fun py_min :: "'a::linorder list \<Rightarrow> 'a option" where
  "py_min [] = None"
| "py_min (x # xs) = Some (foldl min x xs)"

fun py_max :: "'a::linorder list \<Rightarrow> 'a option" where
  "py_max [] = None"
| "py_max (x # xs) = Some (foldl max x xs)"

section \<open>The environment\<close>

text \<open>
  Everything the program reads from outside, as one record: the clock, the library's date
  conversions and the answers of the network.
  \<^item> \<open>utcfromtimestamp\<close>: \<open>datetime.utcfromtimestamp\<close>, \<open>None\<close> where it raises;
  \<^item> \<open>one_year_ago\<close>: \<open>datetime.utcnow() - timedelta(days=365)\<close>;
  \<^item> \<open>http_news\<close>: the news items of the Steam Web API for an appid
    (\<open>data.get("appnews", {}).get("newsitems", [])\<close>), \<open>None\<close> when the request or the
    decoding of its answer raises;
  \<^item> \<open>fromisoformat\<close> and \<open>strptime\<close>: \<open>datetime.fromisoformat\<close> and
    \<open>datetime.strptime(_, '%Y-%m-%d %H:%M:%S')\<close>, \<open>None\<close> where they raise;
  \<^item> \<open>monthly_series\<close>: the result of \<open>fetch_monthly_series\<close>;
  \<^item> \<open>store_app\<close>: the result of \<open>store.fetch_app\<close>, \<open>None\<close> when it raises or
    returns nothing;
  \<^item> \<open>steamdb_owners\<close>: \<open>owners_from_steamdb\<close> of the result of \<open>steamdb.fetch_app\<close>.
\<close>

record news_item =
  item_date :: "int option"
  item_title :: "string option"
  item_contents :: "string option"

text \<open>
  A point of the raw series, with its keys \<open>date\<close>, \<open>avg\<close> and \<open>peak\<close>. \<open>raw_date\<close> is
  the value of the point's date text after \<open>pd.to_datetime(_, errors='coerce')\<close>,
  \<open>None\<close> for NaT; \<open>raw_avg\<close> and \<open>raw_peak\<close> are \<open>None\<close> where the value is missing
  (None or NaN). Player numbers are real numbers.
\<close>

record raw_point =
  raw_date :: "datetime option"
  raw_avg :: "real option"
  raw_peak :: "real option"

record store_data =
  sd_name :: "string option"
  sd_metacritic :: "string option"

record world =
  utcfromtimestamp :: "int \<Rightarrow> datetime option"
  one_year_ago :: datetime
  http_news :: "int \<Rightarrow> news_item list option"
  fromisoformat :: "string \<Rightarrow> datetime option"
  strptime :: "string \<Rightarrow> datetime option"
  monthly_series :: "int \<Rightarrow> raw_point list"
  store_app :: "int \<Rightarrow> store_data option"
  steamdb_owners :: "int \<Rightarrow> real option"

section \<open>patch_extractor.extract_patches_for_games\<close>

definition fetch_news_for_app :: "world \<Rightarrow> int \<Rightarrow> news_item list" where
  "fetch_news_for_app w appid = (case http_news w appid of None \<Rightarrow> [] | Some items \<Rightarrow> items)"

record patch_entry =
  p_appid :: int
  p_title :: string
  p_contents :: string
  p_date :: string
  unix_timestamp :: int
  is_major :: bool
  classification_reason :: string

text \<open>The loop over the news items of one game, with its three \<open>continue\<close>s.\<close>

fun collect_patches :: "world \<Rightarrow> int \<Rightarrow> news_item list \<Rightarrow> patch_entry list" where
  "collect_patches w appid [] = []"
| "collect_patches w appid (item # news) =
     (let unix_ts = (case item_date item of None \<Rightarrow> 0 | Some t \<Rightarrow> t)
      in case utcfromtimestamp w unix_ts of
           None \<Rightarrow> collect_patches w appid news
         | Some item_dt \<Rightarrow>
             if dt_less item_dt (one_year_ago w) then collect_patches w appid news
             else
               let title = (case item_title item of None \<Rightarrow> '''' | Some t \<Rightarrow> t);
                   contents = (case item_contents item of None \<Rightarrow> '''' | Some c \<Rightarrow> c)
               in case classify_patch title contents of
                    None \<Rightarrow> collect_patches w appid news
                  | Some (is_patch, is_maj, reason) \<Rightarrow>
                      \<lparr>p_appid = appid, p_title = title, p_contents = take 500 contents,
                       p_date = strftime_ymd_hms item_dt, unix_timestamp = unix_ts,
                       is_major = is_maj, classification_reason = reason\<rparr>
                      # collect_patches w appid news)"

record summary =
  total_patches :: nat
  major_patches :: nat
  minor_patches :: nat
  has_major_patch :: bool
  first_major_patch_date :: "string option"
  last_patch_date :: "string option"

definition summarize :: "patch_entry list \<Rightarrow> summary" where
  "summarize patches =
     (let major_count = length (filter is_major patches);
          minor_count = length patches - major_count;
          last_patch = (if patches \<noteq> [] then py_max (map p_date patches) else None);
          first_major = (if list_ex is_major patches
                         then py_min (map p_date (filter is_major patches)) else None)
      in \<lparr>total_patches = length patches, major_patches = major_count,
          minor_patches = minor_count, has_major_patch = (major_count > 0),
          first_major_patch_date = first_major, last_patch_date = last_patch\<rparr>)"

text \<open>The summary of a game without activity: all counts zero, both dates null.\<close>

definition zero_summary :: summary where
  "zero_summary =
     \<lparr>total_patches = 0, major_patches = 0, minor_patches = 0, has_major_patch = False,
      first_major_patch_date = None, last_patch_date = None\<rparr>"

text \<open>
  The keys of a Python dict that the program uses: integers (the extractor's summary) and
  strings (the same summary read back from JSON).
\<close>

datatype dict_key = IntKey int | StrKey string

text \<open>
  The loop over the games: \<open>summary[appid] = ...\<close> and \<open>all_patches.append\<close>. The result
  is the pair of the output's \<open>summary\<close> and \<open>patches\<close>.
\<close>

fun extract_loop ::
  "world \<Rightarrow> int list \<Rightarrow> (dict_key \<rightharpoonup> summary) \<times> patch_entry list
     \<Rightarrow> (dict_key \<rightharpoonup> summary) \<times> patch_entry list" where
  "extract_loop w [] acc = acc"
| "extract_loop w (appid # appids) (summ, all_patches) =
     (let news = fetch_news_for_app w appid;
          patches = collect_patches w appid news
      in extract_loop w appids (summ(IntKey appid \<mapsto> summarize patches), all_patches @ patches))"

definition extract_patches_for_games ::
  "world \<Rightarrow> int list \<Rightarrow> (dict_key \<rightharpoonup> summary) \<times> patch_entry list" where
  "extract_patches_for_games w appids = extract_loop w appids (Map.empty, [])"

section \<open>collect_panel_for_did\<close>

text \<open>
  \<open>patch_summary.get(str(appid)) or patch_summary.get(appid)\<close>: a summary is a dict with
  entries, so the second lookup is made exactly when the first finds nothing. An absent
  or empty date text gives no date; a text is parsed by \<open>fromisoformat\<close> and, where that
  raises, by \<open>strptime\<close>; where both raise the result is \<open>None\<close>.
\<close>

definition summary_of :: "(dict_key \<rightharpoonup> summary) \<Rightarrow> int \<Rightarrow> summary option" where
  "summary_of patch_summary appid =
     (case patch_summary (StrKey (str_int appid)) of
        Some s \<Rightarrow> Some s
      | None \<Rightarrow> patch_summary (IntKey appid))"

text \<open>The nested \<open>try\<close> of lines 48--54: \<open>fromisoformat\<close>, then \<open>strptime\<close>, then no date.\<close>

definition parse_date_str :: "world \<Rightarrow> string \<Rightarrow> datetime option" where
  "parse_date_str w date_str =
     (case fromisoformat w date_str of
        Some d \<Rightarrow> Some d
      | None \<Rightarrow> strptime w date_str)"

definition extract_last_major_date :: "world \<Rightarrow> (dict_key \<rightharpoonup> summary) \<Rightarrow> int \<Rightarrow> datetime option" where
  "extract_last_major_date w patch_summary appid =
     (case summary_of patch_summary appid of
        None \<Rightarrow> None
      | Some s \<Rightarrow>
          (case first_major_patch_date s of
             None \<Rightarrow> None
           | Some date_str \<Rightarrow> if date_str = [] then None else parse_date_str w date_str))"

subsection \<open>The monthly series of one game\<close>

text \<open>
  The frame \<open>df_series\<close> after lines 119--140 of \<open>build_panel\<close>: an empty frame for an
  empty series, and otherwise \<open>groupby('ym').agg({'avg': 'mean', 'peak': 'max'})\<close>, which
  has one row for each month that occurs (rows without a date belong to no group), in
  ascending order of the month, with the mean and the maximum of the values that are
  present (\<open>None\<close> when none is).
\<close>

record series_row =
  ym :: "month_start option"
  avg :: "real option"
  peak :: "real option"

fun dropna :: "'a option list \<Rightarrow> 'a list" where
  "dropna [] = []"
| "dropna (None # vs) = dropna vs"
| "dropna (Some v # vs) = v # dropna vs"

definition mean_skipna :: "real option list \<Rightarrow> real option" where
  "mean_skipna vs =
     (let xs = dropna vs in if xs = [] then None else Some (sum_list xs / real (length xs)))"

definition max_skipna :: "real option list \<Rightarrow> real option" where
  "max_skipna vs = py_max (dropna vs)"

definition to_month :: "datetime \<Rightarrow> month_start" where
  "to_month d = (year d, month d)"

definition point_month :: "raw_point \<Rightarrow> month_start option" where
  "point_month p = map_option to_month (raw_date p)"

definition bucket :: "month_start \<Rightarrow> raw_point list \<Rightarrow> raw_point list" where
  "bucket m series = filter (\<lambda>p. point_month p = Some m) series"

definition group_keys :: "raw_point list \<Rightarrow> month_start list" where
  "group_keys series = sort (remdups (dropna (map point_month series)))"

definition normalize_series :: "raw_point list \<Rightarrow> series_row list" where
  "normalize_series series =
     (if series = [] then []
      else map (\<lambda>m. \<lparr>ym = Some m,
                      avg = mean_skipna (map raw_avg (bucket m series)),
                      peak = max_skipna (map raw_peak (bucket m series))\<rparr>)
               (group_keys series))"

subsection \<open>The rows of the panel\<close>

record panel_row =
  row_appid :: int
  row_name :: "string option"
  event_date :: "string option"
  rel_month :: int
  row_month :: "string option"
  avg_players :: "real option"
  peak_players :: "real option"
  owners_estimate :: "real option"
  metacritic_score :: "string option"
  treatment :: int

text \<open>The months in the column \<open>ym\<close> of a frame, NaT left out.\<close>

definition series_months :: "series_row list \<Rightarrow> month_start list" where
  "series_months df = dropna (map ym df)"

text \<open>
  \<open>matched = df_series[df_series['ym'] == row_date]\<close> and the values of its first row;
  a missing value (NaN) and no matching row both give \<open>None\<close>.
\<close>

definition matched :: "series_row list \<Rightarrow> month_start option \<Rightarrow> series_row list" where
  "matched df row_date = (case row_date of None \<Rightarrow> [] | Some m \<Rightarrow> filter (\<lambda>r. ym r = Some m) df)"

definition month_values :: "series_row list \<Rightarrow> month_start option \<Rightarrow> real option \<times> real option" where
  "month_values df row_date = (case matched df row_date of [] \<Rightarrow> (None, None) | r # _ \<Rightarrow> (avg r, peak r))"

text \<open>
  The body of the loop \<open>for rel in range(-4, 5)\<close>. The frame always has its column
  \<open>ym\<close>, so of the two ways to find the latest month of a control game only the first
  (\<open>df_series['ym'].max()\<close>, which skips NaT) is ever taken.
\<close>

definition panel_row_for ::
  "int \<Rightarrow> store_data option \<Rightarrow> real option \<Rightarrow> string option \<Rightarrow> int
     \<Rightarrow> month_start option \<Rightarrow> series_row list \<Rightarrow> int \<Rightarrow> panel_row" where
  "panel_row_for appid store_dat owners_est metacritic treat event_month df_series rel =
     (let (row_date, a, p, event_date_str) =
            (case event_month of
               None \<Rightarrow>
                 if df_series = [] \<or> list_all (\<lambda>r. ym r = None) df_series
                 then (None, None, None, None)
                 else
                   let latest = py_max (series_months df_series);
                       row_date = map_option (\<lambda>l. add_months l rel) latest;
                       (a, p) = month_values df_series row_date
                   in (row_date, a, p, None)
             | Some em \<Rightarrow>
                 let row_date = Some (add_months em rel);
                     (a, p) = month_values df_series row_date
                 in (row_date, a, p, Some (strftime_ymd em)))
      in \<lparr>row_appid = appid,
          row_name = (case store_dat of None \<Rightarrow> None | Some sd \<Rightarrow> sd_name sd),
          event_date = event_date_str,
          rel_month = rel,
          row_month = map_option strftime_ym row_date,
          avg_players = a,
          peak_players = p,
          owners_estimate = owners_est,
          metacritic_score = metacritic,
          treatment = treat\<rparr>)"

text \<open>The body of the loop \<open>for appid in appids\<close>: the nine rows of one game.\<close>

definition game_rows :: "world \<Rightarrow> (dict_key \<rightharpoonup> summary) \<Rightarrow> int \<Rightarrow> panel_row list" where
  "game_rows w patch_summary appid =
     (let store_dat = store_app w appid;
          owners_est = steamdb_owners w appid;
          metacritic = (case store_dat of None \<Rightarrow> None | Some sd \<Rightarrow> sd_metacritic sd);
          last_major = extract_last_major_date w patch_summary appid;
          (treat, event_dt) = (case last_major of None \<Rightarrow> (0, None) | Some d \<Rightarrow> (1, Some d));
          df_series = normalize_series (monthly_series w appid);
          event_month = map_option to_month event_dt
      in map (panel_row_for appid store_dat owners_est metacritic treat event_month df_series)
             [-4..4])"

fun panel_loop :: "world \<Rightarrow> (dict_key \<rightharpoonup> summary) \<Rightarrow> int list \<Rightarrow> panel_row list" where
  "panel_loop w patch_summary [] = []"
| "panel_loop w patch_summary (appid # appids) =
     game_rows w patch_summary appid @ panel_loop w patch_summary appids"

definition build_panel :: "world \<Rightarrow> int list \<Rightarrow> panel_row list" where
  "build_panel w appids =
     (let patch_summary = fst (extract_patches_for_games w appids)
      in panel_loop w patch_summary appids)"

text \<open>
  The anchor month in the words of the specification: the first of the month of the date
  of the first major patch when there is one, otherwise the latest month of the game's
  own normalized series, and none when that series is empty.
\<close>

definition spec_anchor :: "datetime option \<Rightarrow> raw_point list \<Rightarrow> month_start option" where
  "spec_anchor first_major series =
     (case first_major of
        Some d \<Rightarrow> Some (year d, month d)
      | None \<Rightarrow>
          if normalize_series series = [] then None
          else Some (Max (set (series_months (normalize_series series)))))"

section \<open>A small environment\<close>

text \<open>
  Three games, used to run the definitions: 570 has news (a hotfix, two major updates,
  an item older than a year and an item that is no patch) and a series with two points
  in January 2024 and a point without a date; 440 has no news and a series of two
  months; for 730 the news request fails and there is no series. The library functions
  are given at the arguments that occur.
\<close>

definition mk_datetime :: "int \<Rightarrow> int \<Rightarrow> int \<Rightarrow> int \<Rightarrow> int \<Rightarrow> int \<Rightarrow> datetime" where
  "mk_datetime y mo d h mi s = \<lparr>year = y, month = mo, day = d, hour = h, minute = mi, second = s\<rparr>"

definition demo_utcfromtimestamp :: "int \<Rightarrow> datetime option" where
  "demo_utcfromtimestamp t =
     (if t = 1709600000 then Some (mk_datetime 2024 3 5 0 53 20)
      else if t = 1717200000 then Some (mk_datetime 2024 6 1 0 0 0)
      else if t = 1725000000 then Some (mk_datetime 2024 8 30 6 40 0)
      else if t = 1600000000 then Some (mk_datetime 2020 9 13 12 26 40)
      else None)"

definition demo_parse :: "string \<Rightarrow> datetime option" where
  "demo_parse s =
     (if s = ''2024-03-05 00:53:20'' then Some (mk_datetime 2024 3 5 0 53 20)
      else if s = ''2024-06-01 00:00:00'' then Some (mk_datetime 2024 6 1 0 0 0)
      else if s = ''2024-08-30 06:40:00'' then Some (mk_datetime 2024 8 30 6 40 0)
      else if s = ''2020-09-13 12:26:40'' then Some (mk_datetime 2020 9 13 12 26 40)
      else None)"

definition demo_news :: "int \<Rightarrow> news_item list option" where
  "demo_news appid =
     (if appid = 570 then
        Some [\<lparr>item_date = Some 1725000000, item_title = Some ''Hotfix 7.37b'',
                item_contents = Some ''Fixed a crash''\<rparr>,
              \<lparr>item_date = Some 1717200000, item_title = Some ''Major Update 7.36'',
                item_contents = Some ''New game mode added''\<rparr>,
              \<lparr>item_date = Some 1709600000, item_title = Some ''Gameplay overhaul patch'',
                item_contents = None\<rparr>,
              \<lparr>item_date = Some 1600000000, item_title = Some ''Major Update 7.28'',
                item_contents = Some ''New character''\<rparr>,
              \<lparr>item_date = Some 1725000000, item_title = Some ''Roadmap'',
                item_contents = Some ''Our plans for next year''\<rparr>]
      else if appid = 730 then None
      else Some [])"

definition demo_series :: "int \<Rightarrow> raw_point list" where
  "demo_series appid =
     (if appid = 570 then
        [\<lparr>raw_date = Some (mk_datetime 2023 11 15 0 0 0), raw_avg = Some 100, raw_peak = Some 200\<rparr>,
         \<lparr>raw_date = Some (mk_datetime 2024 1 5 0 0 0), raw_avg = Some 10, raw_peak = Some 20\<rparr>,
         \<lparr>raw_date = None, raw_avg = Some 7, raw_peak = Some 9\<rparr>,
         \<lparr>raw_date = Some (mk_datetime 2024 3 1 0 0 0), raw_avg = Some 300, raw_peak = None\<rparr>,
         \<lparr>raw_date = Some (mk_datetime 2024 1 20 0 0 0), raw_avg = Some 20, raw_peak = Some 15\<rparr>]
      else if appid = 440 then
        [\<lparr>raw_date = Some (mk_datetime 2024 7 2 0 0 0), raw_avg = Some 70, raw_peak = Some 90\<rparr>,
         \<lparr>raw_date = Some (mk_datetime 2024 5 10 0 0 0), raw_avg = Some 50, raw_peak = Some 80\<rparr>]
      else [])"

definition demo_world :: world where
  "demo_world =
     \<lparr>utcfromtimestamp = demo_utcfromtimestamp,
      one_year_ago = mk_datetime 2023 11 4 0 0 0,
      http_news = demo_news,
      fromisoformat = demo_parse,
      strptime = demo_parse,
      monthly_series = demo_series,
      store_app = (\<lambda>appid. if appid = 570
                     then Some \<lparr>sd_name = Some ''Dota 2'', sd_metacritic = Some ''90''\<rparr>
                     else None),
      steamdb_owners = (\<lambda>appid. if appid = 570 then Some 150000000 else None)\<rparr>"

definition demo_patches :: "patch_entry list" where
  "demo_patches = collect_patches demo_world 570 (fetch_news_for_app demo_world 570)"

definition demo_summary :: "dict_key \<rightharpoonup> summary" where
  "demo_summary = fst (extract_patches_for_games demo_world [570, 730, 440])"

text \<open>A summary whose date text is in neither of the two formats.\<close>

definition demo_bad_summary :: "dict_key \<rightharpoonup> summary" where
  "demo_bad_summary =
     [IntKey 570 \<mapsto>
        \<lparr>total_patches = 3, major_patches = 2, minor_patches = 1, has_major_patch = True,
         first_major_patch_date = Some ''5 March 2024'',
         last_patch_date = Some ''30 August 2024''\<rparr>]"

section \<open>Properties of the classifier\<close>

lemma branch_case:
  "(case (if mi \<and> \<not> ma then (False, a) else if ma then (True, b) else if d then (False, c) else (True, e))
      of (x, y) \<Rightarrow> Some (True, x, y))
   = (if mi \<and> \<not> ma then Some (True, False, a) else if ma then Some (True, True, b)
      else if d then Some (True, False, c) else Some (True, True, e))"
  by simp

lemma set_patch_keywords:
  "set patch_keywords =
     {''patch'', ''update'', ''hotfix'', ''fix'', ''bug'', ''balance'',
      ''expansion'', ''dlc'', ''content update'', ''new feature'',
      ''maintenance'', ''adjustment'', ''tweak'', ''improvement''}"
  unfolding patch_keywords_def by (simp only: list.set)

lemma classify_patch_policy: "classify_patch title contents = tie_break_policy (lower (title @ '' '' @ contents))"
  unfolding classify_patch_def tie_break_policy_def Let_def branch_case list_ex_iff set_patch_keywords
  by (rule refl)

lemma hotfix_is_minor_indicator:
  "sublist ''bug fix'' c \<or> sublist ''hotfix'' c \<Longrightarrow> list_ex (\<lambda>ind. sublist ind c) minor_indicators"
  unfolding list_ex_iff minor_indicators_def by auto

lemma hotfix_is_patch_keyword:
  "sublist ''bug fix'' c \<or> sublist ''hotfix'' c \<Longrightarrow> list_ex (\<lambda>kw. sublist kw c) patch_keywords"
proof -
  assume h: "sublist ''bug fix'' c \<or> sublist ''hotfix'' c"
  have "sublist ''bug'' ''bug fix''"
    by code_simp
  then have "sublist ''bug fix'' c \<Longrightarrow> sublist ''bug'' c"
    using sublist_order.order.trans by blast
  with h have "sublist ''bug'' c \<or> sublist ''hotfix'' c"
    by blast
  then show ?thesis
    unfolding list_ex_iff patch_keywords_def by auto
qed

text \<open>
  C1. For every title and body the classifier follows the tie-break policy of the
  specification over the lowercased concatenation of title and body: no patch keyword
  gives no classification; minor indicators without major ones give MINOR with reason
  minor_keywords; major indicators give MAJOR with reason major_keywords; otherwise the
  default is MINOR (default_minor) when the text contains "bug fix" or "hotfix" and MAJOR
  (default_major) if not. In particular "Hotfix 1.2.1" / "Fixed a crash" is MINOR with
  reason minor_keywords and "Roadmap" / "Our plans for next year" is not a patch.
\<close>

theorem classify_patch_tie_break:
  "classify_patch title body = tie_break_policy (lower (title @ '' '' @ body))
   \<and> classify_patch ''Hotfix 1.2.1'' ''Fixed a crash'' = Some (True, False, ''minor_keywords'')
   \<and> classify_patch ''Roadmap'' ''Our plans for next year'' = None"
proof (intro conjI)
  show "classify_patch title body = tie_break_policy (lower (title @ '' '' @ body))"
    by (rule classify_patch_policy)
  show "classify_patch ''Hotfix 1.2.1'' ''Fixed a crash'' = Some (True, False, ''minor_keywords'')"
    by code_simp
  show "classify_patch ''Roadmap'' ''Our plans for next year'' = None"
    by code_simp
qed

theorem classify_patch_tie_break_witness:
  "classify_patch ''Server maintenance'' ''Tonight at 10pm'' = Some (True, True, ''default_major'')
   \<and> classify_patch ''Major Update 2.0'' ''New game mode added, minor tweak''
       = Some (True, True, ''major_keywords'')"
proof -
  have a: "tie_break_policy (lower (''Server maintenance'' @ '' '' @ ''Tonight at 10pm''))
             = Some (True, True, ''default_major'')"
    by code_simp
  have b: "tie_break_policy (lower (''Major Update 2.0'' @ '' '' @ ''New game mode added, minor tweak''))
             = Some (True, True, ''major_keywords'')"
    by code_simp
  from classify_patch_tie_break [of "''Server maintenance''" "''Tonight at 10pm''"] a
       classify_patch_tie_break [of "''Major Update 2.0''" "''New game mode added, minor tweak''"] b
  show ?thesis
    by (simp only: simp_thms)
qed

text \<open>
  C2. The classifier at the title "Balance Patch" with an empty body: the text is a patch
  (keywords "balance" and "patch"), it matches no major and no minor indicator (the
  minor indicator is "balance adjustment", not "balance"), and the default branch makes
  it MAJOR with reason default_major.
\<close>

theorem classify_patch_balance_patch:
  "classify_patch ''Balance Patch'' '''' = Some (True, True, ''default_major'')"
  by code_simp

text \<open>
  C9. The classifier never returns the reason default_minor: a text that contains
  "bug fix" or "hotfix" matches the minor indicators (and the patch keywords), so it is
  classified in one of the two earlier branches, as MINOR with reason minor_keywords or
  as MAJOR with reason major_keywords.
\<close>

theorem classify_patch_never_default_minor:
  "classify_patch title body \<noteq> Some (p, m, ''default_minor'')
   \<and> (sublist ''bug fix'' (lower (title @ '' '' @ body)) \<or> sublist ''hotfix'' (lower (title @ '' '' @ body))
        \<longrightarrow> classify_patch title body = Some (True, False, ''minor_keywords'')
          \<or> classify_patch title body = Some (True, True, ''major_keywords''))"
proof (intro conjI impI)
  show "classify_patch title body \<noteq> Some (p, m, ''default_minor'')"
    using hotfix_is_minor_indicator [of "lower (title @ '' '' @ body)"]
    by (auto simp: classify_patch_def Let_def)
next
  assume h: "sublist ''bug fix'' (lower (title @ '' '' @ body)) \<or> sublist ''hotfix'' (lower (title @ '' '' @ body))"
  from hotfix_is_minor_indicator [OF h] hotfix_is_patch_keyword [OF h]
  show "classify_patch title body = Some (True, False, ''minor_keywords'')
          \<or> classify_patch title body = Some (True, True, ''major_keywords'')"
    by (auto simp: classify_patch_def Let_def)
qed

theorem classify_patch_never_default_minor_witness:
  "classify_patch ''Hotfix'' ''A bug fix for the new map'' \<noteq> Some (True, False, ''default_minor'')
   \<and> sublist ''hotfix'' (lower (''Hotfix'' @ '' '' @ ''A bug fix for the new map''))
   \<and> classify_patch ''Hotfix'' ''A bug fix for the new map'' = Some (True, True, ''major_keywords'')"
proof -
  have h: "sublist ''hotfix'' (lower (''Hotfix'' @ '' '' @ ''A bug fix for the new map''))"
    by code_simp
  have n: "classify_patch ''Hotfix'' ''A bug fix for the new map'' \<noteq> Some (True, False, ''minor_keywords'')"
    by code_simp
  from classify_patch_never_default_minor
         [of "''Hotfix''" "''A bug fix for the new map''" True False] h n
  show ?thesis
    by blast
qed

section \<open>Properties of the cache\<close>

lemma map_of_delete: "map_of (delete_rows k al) k' = (if k' = k then None else map_of al k')"
  by (induction al) auto

lemma map_of_delete_snoc:
  "map_of (delete_rows k al @ [(k, v)]) k' = (if k' = k then Some v else map_of al k')"
  by (induction al) auto

lemma lookup_after_set:
  "map_of (cache_table (cache_set dumps now c e a d)) k =
     (if k = (e, a) then Some (dumps d, now) else map_of (cache_table c) k)"
  unfolding cache_set_def by (simp add: map_of_delete_snoc del: map_of_append)

lemma set_delete_rows: "set (delete_rows k al) = {r \<in> set al. fst r \<noteq> k}"
  by (induction al) auto

lemma keys_delete: "set (map fst (delete_rows k al)) = set (map fst al) - {k}"
  by (induction al) auto

lemma distinct_keys_delete: "distinct (map fst al) \<Longrightarrow> distinct (map fst (delete_rows k al))"
  by (induction al) (auto simp: set_delete_rows)

lemma primary_key_set: "primary_key_ok c \<Longrightarrow> primary_key_ok (cache_set dumps now c e a d)"
  using keys_delete [of "(e, a)" "cache_table c"]
  by (simp add: primary_key_ok_def cache_set_def distinct_keys_delete)

lemma primary_key_get: "primary_key_ok c \<Longrightarrow> primary_key_ok (snd (cache_get loads now c e a))"
  by (auto simp: primary_key_ok_def cache_get_def distinct_keys_delete split: option.splits)

lemma primary_key_init: "primary_key_ok (init_db ttl)"
  by (simp add: primary_key_ok_def init_db_def)

lemma length_delete_le: "length (delete_rows k al) \<le> length al"
  by (induction al) auto

lemma length_delete_less:
  "map_of al k = Some v \<Longrightarrow> length (delete_rows k al) < length al"
proof (induction al)
  case Nil
  then show ?case by simp
next
  case (Cons r al)
  show ?case
  proof (cases "fst r = k")
    case True
    then show ?thesis
      using length_delete_le [of k al] by simp
  next
    case False
    with Cons show ?thesis
      by (cases r) simp
  qed
qed

lemma delete_absent: "map_of al k = None \<Longrightarrow> delete_rows k al = al"
  by (induction al) (auto split: if_splits)

lemma length_delete_distinct:
  "distinct (map fst al) \<Longrightarrow> map_of al k = Some v \<Longrightarrow> Suc (length (delete_rows k al)) = length al"
proof (induction al)
  case Nil
  then show ?case by simp
next
  case (Cons r al)
  show ?case
  proof (cases "fst r = k")
    case True
    with Cons.prems(1) have "map_of al k = None"
      by (cases r) (auto simp: map_of_eq_None_iff)
    then have "delete_rows k al = al" by (rule delete_absent)
    with True show ?thesis by simp
  next
    case False
    with Cons show ?thesis
      by (cases r) simp
  qed
qed

text \<open>
  C8. The cache contract, for every key \<open>(e, a)\<close> and payload that survives the JSON
  round trip: a get at time \<open>now'\<close> after a set at time \<open>now\<close>, with
  \<open>now' - now\<close> not above the TTL, returns the payload and leaves the table as it is;
  a get of an absent key returns nothing; a get of a key whose row is older than the TTL
  returns nothing, deletes the row and makes the total of the statistics smaller (by
  exactly one, the key being a primary key); a second set on the same key replaces the
  row, so that the last payload is the one read and the total does not grow; a set leaves
  every other key as it was.
\<close>

theorem cache_contract:
  assumes rt: "loads (dumps payload) = payload"
  shows "(now' - now \<le> ttl_seconds c \<longrightarrow>
            cache_get loads now' (cache_set dumps now c e a payload) e a
              = (Some payload, cache_set dumps now c e a payload))
       \<and> (map_of (cache_table c) (e, a) = None \<longrightarrow> cache_get loads now' c e a = (None, c))
       \<and> (\<forall>d ts. map_of (cache_table c) (e, a) = Some (d, ts) \<and> now' - ts > ttl_seconds c \<longrightarrow>
             fst (cache_get loads now' c e a) = None
             \<and> map_of (cache_table (snd (cache_get loads now' c e a))) (e, a) = None
             \<and> stats_total (snd (cache_get loads now' c e a)) < stats_total c
             \<and> (primary_key_ok c \<longrightarrow> Suc (stats_total (snd (cache_get loads now' c e a))) = stats_total c))
       \<and> (now' - t_again \<le> ttl_seconds c \<longrightarrow>
            fst (cache_get loads now' (cache_set dumps t_again (cache_set dumps now c e a other) e a payload) e a)
              = Some payload)
       \<and> (primary_key_ok c \<longrightarrow>
            stats_total (cache_set dumps t_again (cache_set dumps now c e a other) e a payload)
              = stats_total (cache_set dumps now c e a other))
       \<and> (\<forall>k. k \<noteq> (e, a) \<longrightarrow>
            map_of (cache_table (cache_set dumps now c e a payload)) k = map_of (cache_table c) k)"
  proof (intro conjI impI allI)
  show "cache_get loads now' (cache_set dumps now c e a payload) e a
          = (Some payload, cache_set dumps now c e a payload)" if "now' - now \<le> ttl_seconds c"
    using that rt by (simp add: cache_get_def lookup_after_set) (simp add: cache_set_def)
  show "cache_get loads now' c e a = (None, c)" if "map_of (cache_table c) (e, a) = None"
    using that by (simp add: cache_get_def)
  show "fst (cache_get loads now' (cache_set dumps t_again (cache_set dumps now c e a other) e a payload) e a)
          = Some payload" if "now' - t_again \<le> ttl_seconds c"
    using that rt by (simp add: cache_get_def lookup_after_set) (simp add: cache_set_def)
  show "stats_total (cache_set dumps t_again (cache_set dumps now c e a other) e a payload)
          = stats_total (cache_set dumps now c e a other)" if "primary_key_ok c"
  proof -
    let ?c1 = "cache_set dumps now c e a other"
    have "primary_key_ok ?c1" using that by (rule primary_key_set)
    then have "Suc (length (delete_rows (e, a) (cache_table ?c1))) = length (cache_table ?c1)"
      unfolding primary_key_ok_def
      by (rule length_delete_distinct) (simp add: lookup_after_set)
    then show ?thesis
      by (simp add: stats_total_def get_stats_def cache_set_def)
  qed
  show "map_of (cache_table (cache_set dumps now c e a payload)) k = map_of (cache_table c) k"
    if "k \<noteq> (e, a)" for k
    using that by (simp add: lookup_after_set)
next
  fix d ts
  assume h: "map_of (cache_table c) (e, a) = Some (d, ts) \<and> now' - ts > ttl_seconds c"
  then have g: "cache_get loads now' c e a = (None, c\<lparr>cache_table := delete_rows (e, a) (cache_table c)\<rparr>)"
    by (simp add: cache_get_def)
  show "fst (cache_get loads now' c e a) = None"
    by (simp add: g)
  show "map_of (cache_table (snd (cache_get loads now' c e a))) (e, a) = None"
    by (simp add: g map_of_delete)
  show "stats_total (snd (cache_get loads now' c e a)) < stats_total c"
    using h length_delete_less [of "cache_table c" "(e, a)"]
    by (simp add: g stats_total_def get_stats_def)
  show "Suc (stats_total (snd (cache_get loads now' c e a))) = stats_total c" if "primary_key_ok c"
    using h that length_delete_distinct [of "cache_table c" "(e, a)"]
    by (simp add: g stats_total_def get_stats_def primary_key_ok_def)
qed

theorem cache_contract_witness:
  "fst (cache_get id 3000 (cache_set id 1000 demo_cache ''store_appdetails'' 570 ''new'') ''store_appdetails'' 570)
     = Some ''new''
   \<and> cache_get id 3000 demo_cache ''store_appdetails'' 730 = (None, demo_cache)
   \<and> fst (cache_get id 700000 demo_cache ''store_appdetails'' 570) = (None :: string option)
   \<and> Suc (stats_total (snd (cache_get id 700000 demo_cache ''store_appdetails'' 570 :: string option \<times> SteamCache)))
        = stats_total demo_cache
   \<and> fst (cache_get id 3000 (cache_set id 2000 (cache_set id 1000 demo_cache ''store_appdetails'' 570 ''first'')
                                   ''store_appdetails'' 570 ''second'') ''store_appdetails'' 570)
        = Some ''second''"
proof -
  have rt: "id (id s) = s" for s :: string
    by simp
  have ttl: "ttl_seconds demo_cache = 604800"
    by (simp add: demo_cache_def)
  have row: "map_of (cache_table demo_cache) (''store_appdetails'', 570) = Some (''old'', 0)"
    by (simp add: demo_cache_def)
  have norow: "map_of (cache_table demo_cache) (''store_appdetails'', 730) = None"
    by (simp add: demo_cache_def)
  have pk: "primary_key_ok demo_cache"
    by (simp add: primary_key_ok_def demo_cache_def)
  note a = cache_contract [where loads = id and dumps = id and payload = "''new''", OF rt,
             where now' = 3000 and now = 1000 and c = demo_cache and e = "''store_appdetails''" and a = 570]
  note b = cache_contract [where loads = id and dumps = id and payload = "''new''", OF rt,
             where now' = 3000 and c = demo_cache and e = "''store_appdetails''" and a = 730]
  note c = cache_contract [where loads = id and dumps = id and payload = "''new''", OF rt,
             where now' = 700000 and c = demo_cache and e = "''store_appdetails''" and a = 570]
  note d = cache_contract [where loads = id and dumps = id and payload = "''second''", OF rt,
             where now' = 3000 and t_again = 2000 and now = 1000 and other = "''first''"
               and c = demo_cache and e = "''store_appdetails''" and a = 570]
  from a ttl have 1: "fst (cache_get id 3000 (cache_set id 1000 demo_cache ''store_appdetails'' 570 ''new'') ''store_appdetails'' 570)
     = Some ''new''" by simp
  from b norow have 2: "cache_get id 3000 demo_cache ''store_appdetails'' 730 = (None, demo_cache)"
    by blast
  from c row ttl pk have 3: "fst (cache_get id 700000 demo_cache ''store_appdetails'' 570) = (None :: string option)
     \<and> Suc (stats_total (snd (cache_get id 700000 demo_cache ''store_appdetails'' 570 :: string option \<times> SteamCache)))
        = stats_total demo_cache" by simp
  from d ttl have 4: "fst (cache_get id 3000 (cache_set id 2000 (cache_set id 1000 demo_cache ''store_appdetails'' 570 ''first'')
                                   ''store_appdetails'' 570 ''second'') ''store_appdetails'' 570)
        = Some ''second''" by simp
  from 1 2 3 4 show ?thesis by blast
qed

section \<open>Properties of the extractor\<close>

lemma foldl_min_Min: "foldl min a xs = Min (insert a (set xs))"
proof (induction xs arbitrary: a)
  case Nil
  show ?case by simp
next
  case (Cons x xs)
  have "Min (insert (min a x) (set xs)) = Min (insert a (insert x (set xs)))"
    by (cases "set xs = {}") (simp_all add: min.assoc)
  with Cons show ?case by simp
qed

lemma foldl_max_Max: "foldl max a xs = Max (insert a (set xs))"
proof (induction xs arbitrary: a)
  case Nil
  show ?case by simp
next
  case (Cons x xs)
  have "Max (insert (max a x) (set xs)) = Max (insert a (insert x (set xs)))"
    by (cases "set xs = {}") (simp_all add: max.assoc)
  with Cons show ?case by simp
qed

lemma py_min_Min: "xs \<noteq> [] \<Longrightarrow> py_min xs = Some (Min (set xs))"
  by (cases xs) (simp_all add: foldl_min_Min)

lemma py_max_Max: "xs \<noteq> [] \<Longrightarrow> py_max xs = Some (Max (set xs))"
  by (cases xs) (simp_all add: foldl_max_Max)

lemma first_major_summarize:
  "first_major_patch_date (summarize ps) =
     (if \<exists>p \<in> set ps. is_major p then Some (Min (p_date ` {p \<in> set ps. is_major p})) else None)"
proof (cases "\<exists>p \<in> set ps. is_major p")
  case True
  then have "map p_date (filter is_major ps) \<noteq> []"
    by (auto simp: filter_empty_conv)
  from py_min_Min [OF this] True show ?thesis
    by (simp add: summarize_def Let_def list_ex_iff)
next
  case False
  then show ?thesis
    by (simp add: summarize_def Let_def list_ex_iff)
qed

lemma last_patch_summarize:
  "last_patch_date (summarize ps) = (if ps = [] then None else Some (Max (p_date ` set ps)))"
  using py_max_Max [of "map p_date ps"] by (simp add: summarize_def Let_def)

lemma summarize_Nil: "summarize [] = zero_summary"
  by (simp add: summarize_def zero_summary_def)

lemma extract_loop_lookup:
  "fst (extract_loop w appids (summ, acc)) (IntKey a) =
     (if a \<in> set appids
      then Some (summarize (collect_patches w a (fetch_news_for_app w a)))
      else summ (IntKey a))"
  by (induction appids arbitrary: summ acc) (auto simp: Let_def)

lemma extract_loop_str_keys: "fst (extract_loop w appids (summ, acc)) (StrKey k) = summ (StrKey k)"
  by (induction appids arbitrary: summ acc) (auto simp: Let_def)

lemma extract_summary_lookup:
  "fst (extract_patches_for_games w appids) (IntKey a) =
     (if a \<in> set appids
      then Some (summarize (collect_patches w a (fetch_news_for_app w a)))
      else None)"
  by (simp add: extract_patches_for_games_def extract_loop_lookup)

lemma extract_summary_str_keys: "fst (extract_patches_for_games w appids) (StrKey k) = None"
  by (simp add: extract_patches_for_games_def extract_loop_str_keys)

lemma fetch_failed_no_patches:
  "http_news w a = None \<or> http_news w a = Some [] \<Longrightarrow> collect_patches w a (fetch_news_for_app w a) = []"
  by (auto simp: fetch_news_for_app_def)

lemma collect_patches_dates:
  "p \<in> set (collect_patches w a news) \<Longrightarrow>
     \<exists>d. p_date p = strftime_ymd_hms d \<and> utcfromtimestamp w (unix_timestamp p) = Some d
         \<and> \<not> dt_less d (one_year_ago w)"
proof (induction news)
  case Nil
  then show ?case by simp
next
  case (Cons item news)
  then show ?case
    by (auto simp: Let_def split: option.splits if_splits)
qed

subsection \<open>The text of a date sorts as the date\<close>

lemma digit_less: "digit x < digit y \<longleftrightarrow> x mod 10 < y mod 10"
proof -
  have "(48 + nat (x mod 10)) mod 256 = 48 + nat (x mod 10)"
       "(48 + nat (y mod 10)) mod 256 = 48 + nat (y mod 10)"
    by (simp_all add: nat_less_iff)
  moreover have "0 \<le> x mod 10" "0 \<le> y mod 10"
    by simp_all
  ultimately show ?thesis
    by (simp add: digit_def less_char_def nat_less_iff) arith
qed

lemma digit_eq: "digit x = digit y \<longleftrightarrow> x mod 10 = y mod 10"
proof -
  have "\<not> digit x < digit y \<and> \<not> digit y < digit x \<longleftrightarrow> digit x = digit y"
    by auto
  then show ?thesis
    unfolding digit_less by auto
qed

lemma lex_base10:
  fixes qa ra qb rb :: int
  assumes "0 \<le> ra" "ra < 10" "0 \<le> rb" "rb < 10"
  shows "(qa < qb \<or> qa = qb \<and> (ra < rb \<or> ra = rb \<and> P))
           \<longleftrightarrow> (10 * qa + ra < 10 * qb + rb \<or> 10 * qa + ra = 10 * qb + rb \<and> P)"
  using assms by (cases "qa < qb"; cases "qa = qb") auto

lemma lex_base100:
  fixes qa ra qb rb :: int
  assumes "0 \<le> ra" "ra < 100" "0 \<le> rb" "rb < 100"
  shows "(qa < qb \<or> qa = qb \<and> (ra < rb \<or> ra = rb \<and> P))
           \<longleftrightarrow> (100 * qa + ra < 100 * qb + rb \<or> 100 * qa + ra = 100 * qb + rb \<and> P)"
  using assms by (cases "qa < qb"; cases "qa = qb") auto

lemma pad2_less:
  assumes "0 \<le> a" "a < 100" "0 \<le> b" "b < 100"
  shows "pad2 a @ xs < pad2 b @ ys \<longleftrightarrow> a < b \<or> a = b \<and> xs < ys"
proof -
  have a: "a div 10 mod 10 = a div 10" and b: "b div 10 mod 10 = b div 10"
    using assms by simp_all
  have ab: "10 * (a div 10) + a mod 10 = a" "10 * (b div 10) + b mod 10 = b"
    by simp_all
  have "pad2 a @ xs < pad2 b @ ys \<longleftrightarrow>
          a div 10 < b div 10 \<or> a div 10 = b div 10 \<and> (a mod 10 < b mod 10 \<or> a mod 10 = b mod 10 \<and> xs < ys)"
    by (simp add: pad2_def digit_less digit_eq a b)
  also have "\<dots> \<longleftrightarrow> a < b \<or> a = b \<and> xs < ys"
    using lex_base10 [of "a mod 10" "b mod 10" "a div 10" "b div 10" "xs < ys"]
    unfolding ab by simp
  finally show ?thesis .
qed

lemma pad4_split: "pad4 n @ zs = pad2 (n div 100) @ pad2 (n mod 100) @ zs"
proof -
  have "n div 1000 = n div 100 div 10"
    using zdiv_zmult2_eq [of 10 n 100] by simp
  then have 1: "digit (n div 1000) = digit (n div 100 div 10)"
    by (rule arg_cong)
  have "n div 10 mod 10 = n mod 100 div 10 mod 10"
    using zmod_zmult2_eq [of 10 n 10] by simp
  then have 2: "digit (n div 10) = digit (n mod 100 div 10)"
    unfolding digit_eq .
  have "n mod 10 = n mod 100 mod 10"
    by (simp add: mod_mod_cancel)
  then have 3: "digit n = digit (n mod 100)"
    unfolding digit_eq .
  show ?thesis
    unfolding pad4_def pad2_def 1 2 3 by simp
qed

lemma pad4_less:
  assumes "0 \<le> a" "a < 10000" "0 \<le> b" "b < 10000"
  shows "pad4 a @ xs < pad4 b @ ys \<longleftrightarrow> a < b \<or> a = b \<and> xs < ys"
proof -
  have hi: "0 \<le> a div 100" "a div 100 < 100" "0 \<le> b div 100" "b div 100 < 100"
    and lo: "0 \<le> a mod 100" "a mod 100 < 100" "0 \<le> b mod 100" "b mod 100 < 100"
    using assms by simp_all
  have ab: "100 * (a div 100) + a mod 100 = a" "100 * (b div 100) + b mod 100 = b"
    by simp_all
  have "pad4 a @ xs < pad4 b @ ys \<longleftrightarrow>
          a div 100 < b div 100 \<or> a div 100 = b div 100 \<and> (a mod 100 < b mod 100 \<or> a mod 100 = b mod 100 \<and> xs < ys)"
    unfolding pad4_split pad2_less [OF hi] pad2_less [OF lo] ..
  also have "\<dots> \<longleftrightarrow> a < b \<or> a = b \<and> xs < ys"
    using lex_base100 [of "a mod 100" "b mod 100" "a div 100" "b div 100" "xs < ys"]
    unfolding ab by simp
  finally show ?thesis .
qed

lemma sep_less: "(c::char) # xs < c # ys \<longleftrightarrow> xs < ys"
  by simp

lemma strftime_ymd_hms_less:
  assumes "valid_datetime a" "valid_datetime b"
  shows "strftime_ymd_hms a < strftime_ymd_hms b \<longleftrightarrow> dt_key a < dt_key b"
proof -
  from assms have
    y: "0 \<le> year a" "year a < 10000" "0 \<le> year b" "year b < 10000" and
    m: "0 \<le> month a" "month a < 100" "0 \<le> month b" "month b < 100" and
    d: "0 \<le> day a" "day a < 100" "0 \<le> day b" "day b < 100" and
    H: "0 \<le> hour a" "hour a < 100" "0 \<le> hour b" "hour b < 100" and
    M: "0 \<le> minute a" "minute a < 100" "0 \<le> minute b" "minute b < 100" and
    S: "0 \<le> second a" "second a < 100" "0 \<le> second b" "second b < 100"
    by (simp_all add: valid_datetime_def)
  have last: "pad2 (second a) < pad2 (second b) \<longleftrightarrow> second a < second b"
    using pad2_less [OF S, of "[]" "[]"] by simp
  show ?thesis
    unfolding strftime_ymd_hms_def dt_key_def
    by (simp only: append_Cons append_Nil pad4_less [OF y] pad2_less [OF m] pad2_less [OF d]
          pad2_less [OF H] pad2_less [OF M] last sep_less less_prod_def fst_conv snd_conv)
       auto
qed

lemma strftime_ymd_hms_le:
  assumes "valid_datetime a" "valid_datetime b"
  shows "strftime_ymd_hms a \<le> strftime_ymd_hms b \<longleftrightarrow> dt_key a \<le> dt_key b"
  using strftime_ymd_hms_less [OF assms(2) assms(1)] by (simp add: not_less [symmetric])

text \<open>
  C5. The summary of a game's classified patch records: first_major_patch_date is the
  least date among the major records and null when there is none; last_patch_date is the
  greatest date among all records and null when there are none; a game without
  qualifying news items, also one whose fetch failed, has the summary with all counts
  zero and both dates null. The summary that the extractor stores for a game is the one
  of the records collected from its news. The dates are the texts
  \<open>YYYY-MM-DD HH:MM:SS\<close> of the items' times, and these texts sort as the times do.
\<close>

theorem summary_first_major_last_patch:
  "first_major_patch_date (summarize ps) =
     (if \<exists>p \<in> set ps. is_major p then Some (Min (p_date ` {p \<in> set ps. is_major p})) else None)
   \<and> last_patch_date (summarize ps) = (if ps = [] then None else Some (Max (p_date ` set ps)))
   \<and> (ps = [] \<longrightarrow> summarize ps = zero_summary)
   \<and> (a \<in> set appids \<longrightarrow>
        fst (extract_patches_for_games w appids) (IntKey a)
          = Some (summarize (collect_patches w a (fetch_news_for_app w a))))
   \<and> (a \<in> set appids \<and> (http_news w a = None \<or> http_news w a = Some []) \<longrightarrow>
        fst (extract_patches_for_games w appids) (IntKey a) = Some zero_summary)
   \<and> (\<forall>p \<in> set (collect_patches w a news).
        \<exists>d. p_date p = strftime_ymd_hms d \<and> utcfromtimestamp w (unix_timestamp p) = Some d
            \<and> \<not> dt_less d (one_year_ago w))
   \<and> (valid_datetime d1 \<and> valid_datetime d2 \<longrightarrow>
        (strftime_ymd_hms d1 \<le> strftime_ymd_hms d2 \<longleftrightarrow> dt_key d1 \<le> dt_key d2))"
proof (intro conjI impI ballI)
  show "first_major_patch_date (summarize ps) =
     (if \<exists>p \<in> set ps. is_major p then Some (Min (p_date ` {p \<in> set ps. is_major p})) else None)"
    by (rule first_major_summarize)
  show "last_patch_date (summarize ps) = (if ps = [] then None else Some (Max (p_date ` set ps)))"
    by (rule last_patch_summarize)
  show "summarize ps = zero_summary" if "ps = []"
    using that by (simp add: summarize_Nil)
  show "fst (extract_patches_for_games w appids) (IntKey a)
          = Some (summarize (collect_patches w a (fetch_news_for_app w a)))" if "a \<in> set appids"
    using that by (simp add: extract_summary_lookup)
  show "fst (extract_patches_for_games w appids) (IntKey a) = Some zero_summary"
    if "a \<in> set appids \<and> (http_news w a = None \<or> http_news w a = Some [])"
    using that fetch_failed_no_patches [of w a]
    by (simp add: extract_summary_lookup summarize_Nil)
  show "\<exists>d. p_date p = strftime_ymd_hms d \<and> utcfromtimestamp w (unix_timestamp p) = Some d
            \<and> \<not> dt_less d (one_year_ago w)" if "p \<in> set (collect_patches w a news)" for p
    using that by (rule collect_patches_dates)
  show "strftime_ymd_hms d1 \<le> strftime_ymd_hms d2 \<longleftrightarrow> dt_key d1 \<le> dt_key d2"
    if "valid_datetime d1 \<and> valid_datetime d2"
    using that strftime_ymd_hms_le by blast
qed

theorem summary_first_major_last_patch_witness:
  "Min (p_date ` {p \<in> set demo_patches. is_major p}) = ''2024-03-05 00:53:20''
   \<and> Max (p_date ` set demo_patches) = ''2024-08-30 06:40:00''
   \<and> fst (extract_patches_for_games demo_world [570, 730, 440]) (IntKey 570) = Some (summarize demo_patches)
   \<and> fst (extract_patches_for_games demo_world [570, 730, 440]) (IntKey 730) = Some zero_summary
   \<and> summarize [] = zero_summary
   \<and> strftime_ymd_hms (mk_datetime 2024 3 5 0 53 20) \<le> strftime_ymd_hms (mk_datetime 2024 6 1 0 0 0)"
proof -
  note t = summary_first_major_last_patch
             [of demo_patches 570 "[570, 730, 440]" demo_world "[]"
                 "mk_datetime 2024 3 5 0 53 20" "mk_datetime 2024 6 1 0 0 0"]
  note u = summary_first_major_last_patch
             [of "[]" 730 "[570, 730, 440]" demo_world "[]"
                 "mk_datetime 2024 3 5 0 53 20" "mk_datetime 2024 6 1 0 0 0"]
  have major: "\<exists>p \<in> set demo_patches. is_major p"
    by code_simp
  have nonempty: "demo_patches \<noteq> []"
    by code_simp
  have first: "first_major_patch_date (summarize demo_patches) = Some ''2024-03-05 00:53:20''"
    by code_simp
  have last: "last_patch_date (summarize demo_patches) = Some ''2024-08-30 06:40:00''"
    by code_simp
  have failed: "http_news demo_world 730 = None"
    by (simp add: demo_world_def demo_news_def)
  have valid: "valid_datetime (mk_datetime 2024 3 5 0 53 20)" "valid_datetime (mk_datetime 2024 6 1 0 0 0)"
    by (simp_all add: valid_datetime_def mk_datetime_def)
  have keys: "dt_key (mk_datetime 2024 3 5 0 53 20) \<le> dt_key (mk_datetime 2024 6 1 0 0 0)"
    by (simp add: dt_key_def mk_datetime_def)
  from t major first have 1: "Min (p_date ` {p \<in> set demo_patches. is_major p}) = ''2024-03-05 00:53:20''"
    by simp
  from t nonempty last have 2: "Max (p_date ` set demo_patches) = ''2024-08-30 06:40:00''"
    by simp
  from t have 3: "fst (extract_patches_for_games demo_world [570, 730, 440]) (IntKey 570) = Some (summarize demo_patches)"
    by (simp add: demo_patches_def)
  have member: "(730::int) \<in> set [570, 730, 440]"
    by simp
  from u failed member have 4: "fst (extract_patches_for_games demo_world [570, 730, 440]) (IntKey 730) = Some zero_summary"
    by blast
  from u have 5: "summarize [] = zero_summary"
    by blast
  from t valid keys have 6: "strftime_ymd_hms (mk_datetime 2024 3 5 0 53 20) \<le> strftime_ymd_hms (mk_datetime 2024 6 1 0 0 0)"
    by simp
  from 1 2 3 4 5 6 show ?thesis
    by simp
qed

section \<open>Properties of the monthly series\<close>

lemma set_dropna: "set (dropna xs) = {x. Some x \<in> set xs}"
  by (induction xs rule: dropna.induct) auto

lemma dropna_present: "\<forall>x \<in> set xs. x \<noteq> None \<Longrightarrow> dropna xs = map the xs"
  by (induction xs rule: dropna.induct) auto

lemma dropna_map_Some: "dropna (map Some xs) = xs"
  by (induction xs) auto

lemma set_group_keys: "set (group_keys s) = {m. \<exists>p \<in> set s. point_month p = Some m}"
  by (force simp: group_keys_def set_dropna image_iff)

lemma distinct_group_keys: "distinct (group_keys s)"
  by (simp add: group_keys_def)

lemma sorted_group_keys: "sorted_wrt (<) (group_keys s)"
  by (simp add: strict_sorted_iff group_keys_def)

lemma normalize_series_rows:
  "normalize_series s =
     map (\<lambda>m. \<lparr>ym = Some m,
                 avg = mean_skipna (map raw_avg (bucket m s)),
                 peak = max_skipna (map raw_peak (bucket m s))\<rparr>)
         (group_keys s)"
  by (simp add: normalize_series_def group_keys_def)

lemma ym_normalize_series: "map ym (normalize_series s) = map Some (group_keys s)"
  by (simp add: normalize_series_rows comp_def)

lemma bucket_nonempty: "m \<in> set (group_keys s) \<Longrightarrow> bucket m s \<noteq> []"
  by (auto simp: set_group_keys bucket_def filter_empty_conv)

lemma normalize_series_row:
  assumes "r \<in> set (normalize_series s)" "ym r = Some m"
  shows "m \<in> set (group_keys s)
       \<and> avg r = mean_skipna (map raw_avg (bucket m s))
       \<and> peak r = max_skipna (map raw_peak (bucket m s))"
  using assms by (auto simp: normalize_series_rows)

lemma mean_skipna_present:
  "\<forall>p \<in> set b. f p \<noteq> None \<Longrightarrow> b \<noteq> [] \<Longrightarrow>
     mean_skipna (map f b) = Some ((\<Sum>p\<leftarrow>b. the (f p)) / real (length b))"
  by (simp add: mean_skipna_def dropna_present comp_def)

lemma max_skipna_Max:
  "max_skipna vs = (let xs = dropna vs in if xs = [] then None else Some (Max (set xs)))"
  by (simp add: max_skipna_def Let_def py_max_Max)

lemma max_skipna_present:
  "\<forall>p \<in> set b. f p \<noteq> None \<Longrightarrow> b \<noteq> [] \<Longrightarrow>
     max_skipna (map f b) = Some (Max ((\<lambda>p. the (f p)) ` set b))"
  by (simp add: max_skipna_Max dropna_present image_image)

text \<open>
  C6. The normalizer buckets the raw points by the first of their month and merges the
  points of a month: the months of the output are those of the dated raw points, each
  once and in chronological order; the row of a month has the arithmetic mean of the raw
  averages of its bucket and the maximum of its raw peaks (over the values that are
  present, which are all of them when none is missing). The two points of January 2024
  with averages 10 and 20 and peaks 20 and 15 give the single point of 2024-01 with
  average 15 and peak 20, and an empty input gives an empty output.
\<close>

theorem normalize_series_buckets:
  "normalize_series [] = []
   \<and> normalize_series
        [\<lparr>raw_date = Some (mk_datetime 2024 1 5 0 0 0), raw_avg = Some 10, raw_peak = Some 20\<rparr>,
         \<lparr>raw_date = Some (mk_datetime 2024 1 20 0 0 0), raw_avg = Some 20, raw_peak = Some 15\<rparr>]
       = [\<lparr>ym = Some (2024, 1), avg = Some 15, peak = Some 20\<rparr>]
   \<and> map ym (normalize_series s) = map Some (group_keys s)
   \<and> set (group_keys s) = {m. \<exists>p \<in> set s. point_month p = Some m}
   \<and> sorted_wrt (<) (group_keys s)
   \<and> distinct (map ym (normalize_series s))
   \<and> (\<forall>r \<in> set (normalize_series s). \<forall>m. ym r = Some m \<longrightarrow>
         bucket m s \<noteq> []
         \<and> avg r = (let xs = dropna (map raw_avg (bucket m s))
                    in if xs = [] then None else Some (sum_list xs / real (length xs)))
         \<and> peak r = (let xs = dropna (map raw_peak (bucket m s))
                     in if xs = [] then None else Some (Max (set xs)))
         \<and> ((\<forall>p \<in> set (bucket m s). raw_avg p \<noteq> None) \<longrightarrow>
               avg r = Some ((\<Sum>p\<leftarrow>bucket m s. the (raw_avg p)) / real (length (bucket m s))))
         \<and> ((\<forall>p \<in> set (bucket m s). raw_peak p \<noteq> None) \<longrightarrow>
               peak r = Some (Max ((\<lambda>p. the (raw_peak p)) ` set (bucket m s)))))"
proof (intro conjI ballI allI impI)
  show "normalize_series [] = []"
    by (simp add: normalize_series_def)
  show "normalize_series
        [\<lparr>raw_date = Some (mk_datetime 2024 1 5 0 0 0), raw_avg = Some 10, raw_peak = Some 20\<rparr>,
         \<lparr>raw_date = Some (mk_datetime 2024 1 20 0 0 0), raw_avg = Some 20, raw_peak = Some 15\<rparr>]
       = [\<lparr>ym = Some (2024, 1), avg = Some 15, peak = Some 20\<rparr>]"
    by code_simp
  show "map ym (normalize_series s) = map Some (group_keys s)"
    by (rule ym_normalize_series)
  show "set (group_keys s) = {m. \<exists>p \<in> set s. point_month p = Some m}"
    by (rule set_group_keys)
  show "sorted_wrt (<) (group_keys s)"
    by (rule sorted_group_keys)
  show "distinct (map ym (normalize_series s))"
    by (simp add: ym_normalize_series distinct_map distinct_group_keys)
next
  fix r m
  assume "r \<in> set (normalize_series s)" "ym r = Some m"
  from normalize_series_row [OF this]
  have key: "m \<in> set (group_keys s)"
    and a: "avg r = mean_skipna (map raw_avg (bucket m s))"
    and p: "peak r = max_skipna (map raw_peak (bucket m s))"
    by simp_all
  from key show ne: "bucket m s \<noteq> []"
    by (rule bucket_nonempty)
  show "avg r = (let xs = dropna (map raw_avg (bucket m s))
                 in if xs = [] then None else Some (sum_list xs / real (length xs)))"
    by (simp add: a mean_skipna_def)
  show "peak r = (let xs = dropna (map raw_peak (bucket m s))
                  in if xs = [] then None else Some (Max (set xs)))"
    by (simp add: p max_skipna_Max)
  show "avg r = Some ((\<Sum>p\<leftarrow>bucket m s. the (raw_avg p)) / real (length (bucket m s)))"
    if "\<forall>p \<in> set (bucket m s). raw_avg p \<noteq> None"
    unfolding a by (rule mean_skipna_present [OF that ne])
  show "peak r = Some (Max ((\<lambda>p. the (raw_peak p)) ` set (bucket m s)))"
    if "\<forall>p \<in> set (bucket m s). raw_peak p \<noteq> None"
    unfolding p by (rule max_skipna_present [OF that ne])
qed

theorem normalize_series_buckets_witness:
  "map ym (normalize_series (demo_series 570)) = [Some (2023, 11), Some (2024, 1), Some (2024, 3)]
   \<and> (\<Sum>p\<leftarrow>bucket (2024, 1) (demo_series 570). the (raw_avg p))
        / real (length (bucket (2024, 1) (demo_series 570))) = 15
   \<and> Max ((\<lambda>p. the (raw_peak p)) ` set (bucket (2024, 1) (demo_series 570))) = 20"
proof -
  let ?r = "\<lparr>ym = Some (2024, 1), avg = Some 15, peak = Some 20\<rparr>"
  note t = normalize_series_buckets [of "demo_series 570"]
  have keys: "group_keys (demo_series 570) = [(2023, 11), (2024, 1), (2024, 3)]"
    by code_simp
  have row: "?r \<in> set (normalize_series (demo_series 570))"
    by code_simp
  have avgs: "\<forall>p \<in> set (bucket (2024, 1) (demo_series 570)). raw_avg p \<noteq> None"
    by code_simp
  have peaks: "\<forall>p \<in> set (bucket (2024, 1) (demo_series 570)). raw_peak p \<noteq> None"
    by code_simp
  from t keys have 1: "map ym (normalize_series (demo_series 570)) = [Some (2023, 11), Some (2024, 1), Some (2024, 3)]"
    by simp
  from t row have "\<forall>m. ym ?r = Some m \<longrightarrow>
         ((\<forall>p \<in> set (bucket m (demo_series 570)). raw_avg p \<noteq> None) \<longrightarrow>
               avg ?r = Some ((\<Sum>p\<leftarrow>bucket m (demo_series 570). the (raw_avg p)) / real (length (bucket m (demo_series 570)))))
         \<and> ((\<forall>p \<in> set (bucket m (demo_series 570)). raw_peak p \<noteq> None) \<longrightarrow>
               peak ?r = Some (Max ((\<lambda>p. the (raw_peak p)) ` set (bucket m (demo_series 570)))))"
    by blast
  then have "((\<forall>p \<in> set (bucket (2024, 1) (demo_series 570)). raw_avg p \<noteq> None) \<longrightarrow>
               Some 15 = Some ((\<Sum>p\<leftarrow>bucket (2024, 1) (demo_series 570). the (raw_avg p)) / real (length (bucket (2024, 1) (demo_series 570)))))
         \<and> ((\<forall>p \<in> set (bucket (2024, 1) (demo_series 570)). raw_peak p \<noteq> None) \<longrightarrow>
               Some 20 = Some (Max ((\<lambda>p. the (raw_peak p)) ` set (bucket (2024, 1) (demo_series 570)))))"
    by simp
  with avgs peaks have 2: "(\<Sum>p\<leftarrow>bucket (2024, 1) (demo_series 570). the (raw_avg p))
        / real (length (bucket (2024, 1) (demo_series 570))) = 15"
    and 3: "Max ((\<lambda>p. the (raw_peak p)) ` set (bucket (2024, 1) (demo_series 570))) = 20"
    by simp_all
  from 1 2 3 show ?thesis
    by simp
qed

section \<open>Properties of the panel\<close>

lemma range_m4_5: "[-4..4] = [-4, -3, -2, -1, 0, 1, 2, 3, 4 :: int]"
  by code_simp

lemma filter_eq_distinct:
  "distinct ks \<Longrightarrow> filter (\<lambda>k. k = m) ks = (if m \<in> set ks then [m] else [])"
  by (induction ks) auto

lemma matched_normalize_series:
  "matched (normalize_series s) (Some m) =
     (if m \<in> set (group_keys s)
      then [\<lparr>ym = Some m,
              avg = mean_skipna (map raw_avg (bucket m s)),
              peak = max_skipna (map raw_peak (bucket m s))\<rparr>]
      else [])"
  using filter_eq_distinct [OF distinct_group_keys, of m s]
  by (simp add: matched_def normalize_series_rows filter_map comp_def)

lemma month_values_normalize_series:
  "month_values (normalize_series s) (Some m) =
     (if m \<in> set (group_keys s)
      then (mean_skipna (map raw_avg (bucket m s)), max_skipna (map raw_peak (bucket m s)))
      else (None, None))"
  by (simp add: month_values_def matched_normalize_series)

lemma normalize_series_empty_iff: "normalize_series s = [] \<longleftrightarrow> group_keys s = []"
  by (simp add: normalize_series_rows)

lemma all_na_normalize_series:
  "list_all (\<lambda>r. ym r = None) (normalize_series s) \<longleftrightarrow> group_keys s = []"
  by (cases "group_keys s") (simp_all add: normalize_series_rows list_all_iff)

lemma months_normalize_series: "series_months (normalize_series s) = group_keys s"
  by (simp add: series_months_def ym_normalize_series dropna_map_Some)

lemma latest_normalize_series:
  "py_max (series_months (normalize_series s)) =
     (if group_keys s = [] then None else Some (Max (set (group_keys s))))"
  by (simp add: months_normalize_series py_max_Max)

lemma spec_anchor_keys:
  "spec_anchor fm s =
     (case fm of Some d \<Rightarrow> Some (to_month d)
      | None \<Rightarrow> if group_keys s = [] then None else Some (Max (set (group_keys s))))"
  by (simp add: spec_anchor_def months_normalize_series normalize_series_empty_iff to_month_def
           split: option.splits)

lemma in_group_keys_iff:
  "m \<in> set (group_keys s) \<longleftrightarrow> (\<exists>sr \<in> set (normalize_series s). ym sr = Some m)"
  by (auto simp: normalize_series_rows)

lemma panel_row_for_normalized:
  "panel_row_for appid sd own mc treat em (normalize_series s) rel =
     (let anchor = (case em of Some e \<Rightarrow> Some e
                    | None \<Rightarrow> if group_keys s = [] then None else Some (Max (set (group_keys s))));
          row_date = map_option (\<lambda>a. add_months a rel) anchor;
          vals = (case row_date of
                    None \<Rightarrow> (None, None)
                  | Some m \<Rightarrow>
                      if m \<in> set (group_keys s)
                      then (mean_skipna (map raw_avg (bucket m s)), max_skipna (map raw_peak (bucket m s)))
                      else (None, None))
      in \<lparr>row_appid = appid,
          row_name = (case sd of None \<Rightarrow> None | Some x \<Rightarrow> sd_name x),
          event_date = map_option strftime_ymd em,
          rel_month = rel,
          row_month = map_option strftime_ym row_date,
          avg_players = fst vals,
          peak_players = snd vals,
          owners_estimate = own,
          metacritic_score = mc,
          treatment = treat\<rparr>)"
proof (cases em)
  case None
  show ?thesis
  proof (cases "group_keys s = []")
    case True
    with None show ?thesis
      by (simp add: panel_row_for_def normalize_series_empty_iff)
  next
    case False
    with None show ?thesis
      by (simp add: panel_row_for_def normalize_series_empty_iff all_na_normalize_series
            latest_normalize_series month_values_normalize_series Let_def)
  qed
next
  case (Some e)
  then show ?thesis
    by (simp add: panel_row_for_def month_values_normalize_series Let_def)
qed

lemma game_rows_map:
  "game_rows w ps appid =
     map (panel_row_for appid (store_app w appid) (steamdb_owners w appid)
            (case store_app w appid of None \<Rightarrow> None | Some sd \<Rightarrow> sd_metacritic sd)
            (if extract_last_major_date w ps appid = None then 0 else 1)
            (map_option to_month (extract_last_major_date w ps appid))
            (normalize_series (monthly_series w appid)))
         [-4..4]"
  by (cases "extract_last_major_date w ps appid") (simp_all add: game_rows_def Let_def)

lemma anchor_of_event_month:
  "(case map_option to_month fm of
      Some e \<Rightarrow> Some e
    | None \<Rightarrow> if group_keys s = [] then None else Some (Max (set (group_keys s))))
   = spec_anchor fm s"
  by (cases fm) (simp_all add: spec_anchor_keys)

lemma game_rows_member:
  assumes "r \<in> set (game_rows w ps appid)"
  shows "rel_month r \<in> {-4..4}"
    and "row_appid r = appid"
    and "treatment r = (if extract_last_major_date w ps appid = None then 0 else 1)"
    and "event_date r = map_option (\<lambda>d. strftime_ymd (to_month d)) (extract_last_major_date w ps appid)"
    and "row_month r =
           map_option (\<lambda>a. strftime_ym (add_months a (rel_month r)))
             (spec_anchor (extract_last_major_date w ps appid) (monthly_series w appid))"
    and "(avg_players r, peak_players r) =
           (case spec_anchor (extract_last_major_date w ps appid) (monthly_series w appid) of
              None \<Rightarrow> (None, None)
            | Some a \<Rightarrow>
                if add_months a (rel_month r) \<in> set (group_keys (monthly_series w appid))
                then (mean_skipna (map raw_avg (bucket (add_months a (rel_month r)) (monthly_series w appid))),
                      max_skipna (map raw_peak (bucket (add_months a (rel_month r)) (monthly_series w appid))))
                else (None, None))"
proof -
  let ?fm = "extract_last_major_date w ps appid"
  let ?s = "monthly_series w appid"
  from assms obtain rel where rel: "rel \<in> {-4..4}"
    and r: "r = panel_row_for appid (store_app w appid) (steamdb_owners w appid)
            (case store_app w appid of None \<Rightarrow> None | Some sd \<Rightarrow> sd_metacritic sd)
            (if ?fm = None then 0 else 1) (map_option to_month ?fm) (normalize_series ?s) rel"
    unfolding game_rows_map by (simp only: set_map set_upto) (erule imageE)
  note row = r [unfolded panel_row_for_normalized anchor_of_event_month]
  show "rel_month r \<in> {-4..4}"
    using rel by (simp add: row Let_def)
  show "row_appid r = appid"
    by (simp add: row Let_def)
  show "treatment r = (if ?fm = None then 0 else 1)"
    by (simp add: row Let_def)
  show "event_date r = map_option (\<lambda>d. strftime_ymd (to_month d)) ?fm"
    by (simp add: row Let_def option.map_comp comp_def)
  show "row_month r = map_option (\<lambda>a. strftime_ym (add_months a (rel_month r))) (spec_anchor ?fm ?s)"
    by (simp add: row Let_def option.map_comp comp_def)
  show "(avg_players r, peak_players r) =
           (case spec_anchor ?fm ?s of
              None \<Rightarrow> (None, None)
            | Some a \<Rightarrow>
                if add_months a (rel_month r) \<in> set (group_keys ?s)
                then (mean_skipna (map raw_avg (bucket (add_months a (rel_month r)) ?s)),
                      max_skipna (map raw_peak (bucket (add_months a (rel_month r)) ?s)))
                else (None, None))"
    by (cases "spec_anchor ?fm ?s") (simp_all add: row Let_def)
qed

lemma length_game_rows: "length (game_rows w ps appid) = 9"
  unfolding game_rows_map range_m4_5 by simp

lemma rel_month_game_rows: "map rel_month (game_rows w ps appid) = [-4, -3, -2, -1, 0, 1, 2, 3, 4]"
  unfolding game_rows_map range_m4_5 by (simp add: panel_row_for_normalized Let_def)

lemma panel_loop_concat: "panel_loop w ps appids = concat (map (game_rows w ps) appids)"
  by (induction appids) simp_all

lemma build_panel_concat:
  "build_panel w appids = concat (map (game_rows w (fst (extract_patches_for_games w appids))) appids)"
  by (simp add: build_panel_def panel_loop_concat)

lemma nth_concat_blocks:
  "\<forall>x \<in> set xs. length (f x) = n \<Longrightarrow> i < length xs \<Longrightarrow> k < n \<Longrightarrow>
     concat (map f xs) ! (n * i + k) = f (xs ! i) ! k"
proof (induction xs arbitrary: i)
  case Nil
  then show ?case by simp
next
  case (Cons x xs)
  show ?case
  proof (cases i)
    case 0
    with Cons.prems show ?thesis
      by (simp add: nth_append)
  next
    case (Suc j)
    with Cons.prems have "concat (map f xs) ! (n * j + k) = f (xs ! j) ! k"
      by (intro Cons.IH) auto
    moreover have "n * i + k - n = n * j + k" "\<not> n * i + k < n"
      using Suc by simp_all
    ultimately show ?thesis
      using Cons.prems Suc by (simp add: nth_append)
  qed
qed

lemma length_concat_blocks:
  "\<forall>x \<in> set xs. length (f x) = n \<Longrightarrow> length (concat (map f xs)) = n * length xs"
  by (induction xs) simp_all

lemma add_months_0: "1 \<le> snd a \<Longrightarrow> snd a \<le> 12 \<Longrightarrow> add_months a 0 = a"
  by (cases a) (simp add: add_months_def Let_def)

lemma summary_of_extracted:
  "summary_of (fst (extract_patches_for_games w appids)) a =
     (if a \<in> set appids
      then Some (summarize (collect_patches w a (fetch_news_for_app w a)))
      else None)"
  by (simp add: summary_of_def extract_summary_str_keys extract_summary_lookup)

lemma rel_of_index: "k < 9 \<Longrightarrow> [-4, -3, -2, -1, 0, 1, 2, 3, 4 :: int] ! k = int k - 4"
proof -
  have "[-4, -3, -2, -1, 0, 1, 2, 3, 4 :: int] = map (\<lambda>k. int k - 4) [0..<9]"
    by (simp add: upt_rec)
  moreover assume "k < 9"
  ultimately show ?thesis
    by (simp del: upt_Suc)
qed

lemma game_rows_nth:
  assumes "k < 9"
  shows "row_appid (game_rows w ps appid ! k) = appid \<and> rel_month (game_rows w ps appid ! k) = int k - 4"
proof -
  from assms have k: "k < length (game_rows w ps appid)"
    by (simp add: length_game_rows)
  then have "game_rows w ps appid ! k \<in> set (game_rows w ps appid)"
    by (rule nth_mem)
  then have "row_appid (game_rows w ps appid ! k) = appid"
    by (rule game_rows_member)
  moreover have "rel_month (game_rows w ps appid ! k) = map rel_month (game_rows w ps appid) ! k"
    using k by simp
  ultimately show ?thesis
    using assms by (simp only: rel_month_game_rows rel_of_index)
qed

text \<open>
  C4. The panel is the concatenation, in the order of the input list, of the rows of each
  game; every game has exactly nine rows, with rel_month running through -4, ..., 4 in
  ascending order (so the row at position \<open>9 * i + k\<close> is the one of the game at position
  \<open>i\<close> with rel_month \<open>k - 4\<close>); and a rel_month whose month is not in the game's
  series still has its row, with its month and with null avg_players and peak_players.
\<close>

theorem panel_nine_rows_per_game:
  "build_panel w appids = concat (map (game_rows w (fst (extract_patches_for_games w appids))) appids)
   \<and> length (build_panel w appids) = 9 * length appids
   \<and> length (game_rows w ps appid) = 9
   \<and> map rel_month (game_rows w ps appid) = [-4, -3, -2, -1, 0, 1, 2, 3, 4]
   \<and> (\<forall>r \<in> set (game_rows w ps appid). row_appid r = appid)
   \<and> (\<forall>i < length appids. \<forall>k < 9.
         row_appid (build_panel w appids ! (9 * i + k)) = appids ! i
         \<and> rel_month (build_panel w appids ! (9 * i + k)) = int k - 4)
   \<and> (\<forall>r \<in> set (game_rows w ps appid). \<forall>a.
         spec_anchor (extract_last_major_date w ps appid) (monthly_series w appid) = Some a
         \<and> \<not> (\<exists>sr \<in> set (normalize_series (monthly_series w appid)).
                 ym sr = Some (add_months a (rel_month r)))
         \<longrightarrow> row_month r = Some (strftime_ym (add_months a (rel_month r)))
             \<and> avg_players r = None \<and> peak_players r = None)"
proof (intro conjI ballI allI impI)
  let ?ps = "fst (extract_patches_for_games w appids)"
  show c: "build_panel w appids = concat (map (game_rows w ?ps) appids)"
    by (rule build_panel_concat)
  show "length (build_panel w appids) = 9 * length appids"
    unfolding c by (rule length_concat_blocks) (simp add: length_game_rows)
  show "length (game_rows w ps appid) = 9"
    by (rule length_game_rows)
  show "map rel_month (game_rows w ps appid) = [-4, -3, -2, -1, 0, 1, 2, 3, 4]"
    by (rule rel_month_game_rows)
  show "row_appid r = appid" if "r \<in> set (game_rows w ps appid)" for r
    using that by (rule game_rows_member)
  have nth: "build_panel w appids ! (9 * i + k) = game_rows w ?ps (appids ! i) ! k"
    if "i < length appids" "k < 9" for i k
    unfolding c using that by (intro nth_concat_blocks) (simp_all add: length_game_rows)
  show "row_appid (build_panel w appids ! (9 * i + k)) = appids ! i"
    if "i < length appids" "k < 9" for i k
    using that by (simp add: nth game_rows_nth)
  show "rel_month (build_panel w appids ! (9 * i + k)) = int k - 4"
    if "i < length appids" "k < 9" for i k
    using that by (simp add: nth game_rows_nth)
next
  fix r a
  assume r: "r \<in> set (game_rows w ps appid)"
    and h: "spec_anchor (extract_last_major_date w ps appid) (monthly_series w appid) = Some a
            \<and> \<not> (\<exists>sr \<in> set (normalize_series (monthly_series w appid)).
                    ym sr = Some (add_months a (rel_month r)))"
  from h have absent: "add_months a (rel_month r) \<notin> set (group_keys (monthly_series w appid))"
    by (simp add: in_group_keys_iff)
  from game_rows_member(5) [OF r] h
  show "row_month r = Some (strftime_ym (add_months a (rel_month r)))"
    by simp
  from game_rows_member(6) [OF r] h absent
  show "avg_players r = None" and "peak_players r = None"
    by simp_all
qed

theorem panel_nine_rows_per_game_witness:
  "length (build_panel demo_world [570, 730, 440]) = 27
   \<and> row_appid (build_panel demo_world [570, 730, 440] ! 20) = 440
   \<and> rel_month (build_panel demo_world [570, 730, 440] ! 20) = -2
   \<and> row_month (game_rows demo_world Map.empty 440 ! 1) = Some ''2024-04''
   \<and> avg_players (game_rows demo_world Map.empty 440 ! 1) = None
   \<and> peak_players (game_rows demo_world Map.empty 440 ! 1) = None"
proof -
  let ?r = "game_rows demo_world Map.empty 440 ! 1"
  note t = panel_nine_rows_per_game [of demo_world "[570, 730, 440]" Map.empty 440]
  have r: "?r \<in> set (game_rows demo_world Map.empty 440)"
    by (rule nth_mem) (simp add: length_game_rows)
  have rel: "rel_month ?r = -3"
    using game_rows_nth [of 1 demo_world Map.empty 440] by simp
  have anchor: "spec_anchor (extract_last_major_date demo_world Map.empty 440) (monthly_series demo_world 440)
                  = Some (2024, 7)"
    by code_simp
  have month: "add_months (2024, 7) (-3) = (2024, 4)"
    by code_simp
  have absent: "\<not> (\<exists>sr \<in> set (normalize_series (monthly_series demo_world 440)). ym sr = Some (2024, 4))"
    by code_simp
  have fmt: "strftime_ym (2024, 4) = ''2024-04''"
    by code_simp
  from t have "length (build_panel demo_world [570, 730, 440]) = 9 * length [570, 730, 440 :: int]"
    by blast
  then have 1: "length (build_panel demo_world [570, 730, 440]) = 27"
    by simp
  from t have "\<forall>i < length [570, 730, 440 :: int]. \<forall>k < 9.
         row_appid (build_panel demo_world [570, 730, 440] ! (9 * i + k)) = [570, 730, 440] ! i
         \<and> rel_month (build_panel demo_world [570, 730, 440] ! (9 * i + k)) = int k - 4"
    by blast
  from this [rule_format, of 2 2]
  have 2: "row_appid (build_panel demo_world [570, 730, 440] ! 20) = 440
           \<and> rel_month (build_panel demo_world [570, 730, 440] ! 20) = -2"
    by simp
  from t r have "\<forall>a. spec_anchor (extract_last_major_date demo_world Map.empty 440) (monthly_series demo_world 440) = Some a
         \<and> \<not> (\<exists>sr \<in> set (normalize_series (monthly_series demo_world 440)).
                 ym sr = Some (add_months a (rel_month ?r)))
         \<longrightarrow> row_month ?r = Some (strftime_ym (add_months a (rel_month ?r)))
             \<and> avg_players ?r = None \<and> peak_players ?r = None"
    by blast
  note inst = this [rule_format, of "(2024, 7)"]
  have absent': "\<not> (\<exists>sr \<in> set (normalize_series (monthly_series demo_world 440)).
                 ym sr = Some (add_months (2024, 7) (rel_month ?r)))"
    unfolding rel month by (rule absent)
  have 3: "row_month ?r = Some ''2024-04'' \<and> avg_players ?r = None \<and> peak_players ?r = None"
    using inst [OF conjI [OF anchor absent']] unfolding rel month fmt .
  from 1 2 3 show ?thesis
    by simp
qed

lemma extract_last_major_date_parsed:
  "summary_of ps appid = Some sm \<Longrightarrow> first_major_patch_date sm = Some s \<Longrightarrow> s \<noteq> [] \<Longrightarrow>
     extract_last_major_date w ps appid = parse_date_str w s"
  by (simp add: extract_last_major_date_def)

lemma extract_last_major_date_absent:
  "summary_of ps appid = None \<or> (\<exists>sm. summary_of ps appid = Some sm \<and> first_major_patch_date sm = None)
     \<Longrightarrow> extract_last_major_date w ps appid = None"
  by (auto simp: extract_last_major_date_def)

lemma strftime_ymd_hms_nonempty: "strftime_ymd_hms d \<noteq> []"
  by (simp add: strftime_ymd_hms_def pad4_def)

lemma first_major_is_strftime:
  assumes "first_major_patch_date (summarize (collect_patches w a news)) = Some s"
  shows "\<exists>d t. s = strftime_ymd_hms d \<and> utcfromtimestamp w t = Some d"
proof -
  let ?ps = "collect_patches w a news"
  let ?M = "{p \<in> set ?ps. is_major p}"
  from assms have ex: "\<exists>p \<in> set ?ps. is_major p" and s: "s = Min (p_date ` ?M)"
    by (simp_all add: first_major_summarize split: if_splits)
  from ex have "p_date ` ?M \<noteq> {}" "finite (p_date ` ?M)"
    by auto
  then have "Min (p_date ` ?M) \<in> p_date ` ?M"
    by (rule Min_in [rotated])
  then obtain p where "p \<in> set ?ps" "s = p_date p"
    using s by auto
  with collect_patches_dates [of p w a news] show ?thesis
    by auto
qed

text \<open>
  C3. The anchor of a game in the panel builder. When the game's summary has a
  first_major_patch_date (a text that the date parsing reads as the date \<open>d\<close>), every
  row of the game has treatment 1 and the month \<open>rel_month\<close> months after the first of the
  month of \<open>d\<close>, which at rel_month 0 is that month itself. When the summary has none
  (or there is no summary), every row has treatment 0 and is anchored at the latest month
  of the game's own normalized series; when that series is empty there is no anchor and
  the rows have null month, avg_players and peak_players. In both cases the month of a
  row is counted from the anchor of the specification, and the summary that build_panel
  looks up is the one the extractor computed for the game. Its date texts are written by
  \<open>strftime\<close>; so, when \<open>fromisoformat\<close> reads back what \<open>strftime\<close> writes, every game
  of build_panel with a first_major_patch_date is treated and anchored at the month of that
  date.
\<close>

theorem panel_anchor_determination:
  "(summary_of ps appid = Some sm \<and> first_major_patch_date sm = Some s \<and> s \<noteq> []
      \<and> parse_date_str w s = Some d \<longrightarrow>
      (\<forall>r \<in> set (game_rows w ps appid).
          treatment r = 1
          \<and> row_month r = Some (strftime_ym (add_months (year d, month d) (rel_month r)))
          \<and> (rel_month r = 0 \<and> 1 \<le> month d \<and> month d \<le> 12 \<longrightarrow>
                row_month r = Some (strftime_ym (year d, month d)))))
   \<and> (summary_of ps appid = None
        \<or> (\<exists>sm. summary_of ps appid = Some sm \<and> first_major_patch_date sm = None) \<longrightarrow>
      (\<forall>r \<in> set (game_rows w ps appid).
          treatment r = 0
          \<and> (normalize_series (monthly_series w appid) \<noteq> [] \<longrightarrow>
                row_month r =
                  Some (strftime_ym
                    (add_months (Max (set (series_months (normalize_series (monthly_series w appid)))))
                       (rel_month r))))
          \<and> (normalize_series (monthly_series w appid) = [] \<longrightarrow>
                row_month r = None \<and> avg_players r = None \<and> peak_players r = None)))
   \<and> (\<forall>r \<in> set (game_rows w ps appid).
         row_month r =
           map_option (\<lambda>a. strftime_ym (add_months a (rel_month r)))
             (spec_anchor (extract_last_major_date w ps appid) (monthly_series w appid)))
   \<and> summary_of (fst (extract_patches_for_games w appids)) appid =
        (if appid \<in> set appids
         then Some (summarize (collect_patches w appid (fetch_news_for_app w appid)))
         else None)
   \<and> ((\<forall>t d. utcfromtimestamp w t = Some d \<longrightarrow> fromisoformat w (strftime_ymd_hms d) = Some d)
        \<and> appid \<in> set appids
        \<and> first_major_patch_date (summarize (collect_patches w appid (fetch_news_for_app w appid))) \<noteq> None
      \<longrightarrow>
        (\<exists>d. first_major_patch_date (summarize (collect_patches w appid (fetch_news_for_app w appid)))
               = Some (strftime_ymd_hms d)
           \<and> (\<forall>r \<in> set (game_rows w (fst (extract_patches_for_games w appids)) appid).
                 treatment r = 1
                 \<and> row_month r = Some (strftime_ym (add_months (year d, month d) (rel_month r))))))"
proof (intro conjI impI ballI)
  fix r
  assume h: "summary_of ps appid = Some sm \<and> first_major_patch_date sm = Some s \<and> s \<noteq> []
      \<and> parse_date_str w s = Some d"
    and r: "r \<in> set (game_rows w ps appid)"
  from h have fm: "extract_last_major_date w ps appid = Some d"
    by (simp add: extract_last_major_date_parsed)
  from game_rows_member(3) [OF r] fm show "treatment r = 1"
    by simp
  from game_rows_member(5) [OF r] fm
  show m: "row_month r = Some (strftime_ym (add_months (year d, month d) (rel_month r)))"
    by (simp add: spec_anchor_def)
  show "row_month r = Some (strftime_ym (year d, month d))"
    if "rel_month r = 0 \<and> 1 \<le> month d \<and> month d \<le> 12"
    using that m add_months_0 [of "(year d, month d)"] by simp
next
  fix r
  assume h: "summary_of ps appid = None
        \<or> (\<exists>sm. summary_of ps appid = Some sm \<and> first_major_patch_date sm = None)"
    and r: "r \<in> set (game_rows w ps appid)"
  from h have fm: "extract_last_major_date w ps appid = None"
    by (rule extract_last_major_date_absent)
  from game_rows_member(3) [OF r] fm show "treatment r = 0"
    by simp
  show "row_month r =
          Some (strftime_ym
            (add_months (Max (set (series_months (normalize_series (monthly_series w appid)))))
               (rel_month r)))"
    if "normalize_series (monthly_series w appid) \<noteq> []"
    using game_rows_member(5) [OF r] fm that by (simp add: spec_anchor_def)
  assume e: "normalize_series (monthly_series w appid) = []"
  then have a: "spec_anchor (extract_last_major_date w ps appid) (monthly_series w appid) = None"
    using fm by (simp add: spec_anchor_def)
  from game_rows_member(5) [OF r] a show "row_month r = None"
    by simp
  from game_rows_member(6) [OF r] a show "avg_players r = None" and "peak_players r = None"
    by simp_all
next
  show "row_month r =
           map_option (\<lambda>a. strftime_ym (add_months a (rel_month r)))
             (spec_anchor (extract_last_major_date w ps appid) (monthly_series w appid))"
    if "r \<in> set (game_rows w ps appid)" for r
    using that by (rule game_rows_member)
  show "summary_of (fst (extract_patches_for_games w appids)) appid =
        (if appid \<in> set appids
         then Some (summarize (collect_patches w appid (fetch_news_for_app w appid)))
         else None)"
    by (rule summary_of_extracted)
next
  let ?ps = "fst (extract_patches_for_games w appids)"
  let ?sm = "summarize (collect_patches w appid (fetch_news_for_app w appid))"
  assume h: "(\<forall>t d. utcfromtimestamp w t = Some d \<longrightarrow> fromisoformat w (strftime_ymd_hms d) = Some d)
        \<and> appid \<in> set appids \<and> first_major_patch_date ?sm \<noteq> None"
  then obtain s where s: "first_major_patch_date ?sm = Some s"
    by auto
  from first_major_is_strftime [OF this] obtain d t
    where d: "s = strftime_ymd_hms d" "utcfromtimestamp w t = Some d"
    by auto
  with h have "parse_date_str w s = Some d"
    by (simp add: parse_date_str_def)
  moreover from h have "summary_of ?ps appid = Some ?sm"
    by (simp add: summary_of_extracted)
  ultimately have fm: "extract_last_major_date w ?ps appid = Some d"
    using s d(1) by (simp add: extract_last_major_date_parsed strftime_ymd_hms_nonempty)
  have "treatment r = 1 \<and> row_month r = Some (strftime_ym (add_months (year d, month d) (rel_month r)))"
    if "r \<in> set (game_rows w ?ps appid)" for r
    using game_rows_member(3,5) [OF that] fm by (simp add: spec_anchor_def)
  with s d(1)
  show "\<exists>d. first_major_patch_date ?sm = Some (strftime_ymd_hms d)
           \<and> (\<forall>r \<in> set (game_rows w ?ps appid).
                 treatment r = 1
                 \<and> row_month r = Some (strftime_ym (add_months (year d, month d) (rel_month r))))"
    by blast
qed

theorem panel_anchor_determination_witness:
  "treatment (game_rows demo_world demo_summary 570 ! 4) = 1
   \<and> row_month (game_rows demo_world demo_summary 570 ! 4) = Some ''2024-03''
   \<and> treatment (game_rows demo_world demo_summary 440 ! 4) = 0
   \<and> row_month (game_rows demo_world demo_summary 440 ! 4) = Some ''2024-07''
   \<and> treatment (game_rows demo_world demo_summary 730 ! 4) = 0
   \<and> row_month (game_rows demo_world demo_summary 730 ! 4) = None
   \<and> avg_players (game_rows demo_world demo_summary 730 ! 4) = None
   \<and> peak_players (game_rows demo_world demo_summary 730 ! 4) = None
   \<and> treatment (game_rows demo_world demo_summary 570 ! 8) = 1"
proof -
  let ?d = "mk_datetime 2024 3 5 0 53 20"
  have row: "game_rows demo_world demo_summary a ! 4 \<in> set (game_rows demo_world demo_summary a)" for a
    by (rule nth_mem) (simp add: length_game_rows)
  have rel: "rel_month (game_rows demo_world demo_summary a ! 4) = 0" for a
    using game_rows_nth [of 4 demo_world demo_summary a] by simp
  have s570: "summary_of demo_summary 570 = Some (summarize demo_patches)"
    unfolding demo_summary_def demo_patches_def
    using panel_anchor_determination
            [where w = demo_world and appid = 570 and appids = "[570, 730, 440]",
             THEN conjunct2, THEN conjunct2, THEN conjunct2, THEN conjunct1]
    by simp
  have first: "first_major_patch_date (summarize demo_patches) = Some ''2024-03-05 00:53:20''"
    by code_simp
  have parsed: "parse_date_str demo_world ''2024-03-05 00:53:20'' = Some ?d"
    by code_simp
  have ym: "year ?d = 2024" "month ?d = 3"
    by (simp_all add: mk_datetime_def)
  have fmt: "strftime_ym (2024, 3) = ''2024-03''"
    by code_simp
  have add0: "add_months (2024, 3) 0 = (2024, 3)"
    by code_simp
  note treated = panel_anchor_determination
      [where ps = demo_summary and appid = 570 and w = demo_world
         and sm = "summarize demo_patches" and s = "''2024-03-05 00:53:20''" and d = ?d]
  have hyp: "summary_of demo_summary 570 = Some (summarize demo_patches)
             \<and> first_major_patch_date (summarize demo_patches) = Some ''2024-03-05 00:53:20''
             \<and> ''2024-03-05 00:53:20'' \<noteq> []
             \<and> parse_date_str demo_world ''2024-03-05 00:53:20'' = Some ?d"
    using s570 first parsed by simp
  from treated [THEN conjunct1, rule_format, OF hyp row [of 570]]
  have 1: "treatment (game_rows demo_world demo_summary 570 ! 4) = 1
           \<and> row_month (game_rows demo_world demo_summary 570 ! 4) = Some ''2024-03''"
    by (simp add: rel ym fmt add0)
  have "summary_of demo_summary 440 = Some zero_summary"
    by code_simp
  then have s440: "\<exists>sm. summary_of demo_summary 440 = Some sm \<and> first_major_patch_date sm = None"
    by (simp add: zero_summary_def)
  have series440: "normalize_series (monthly_series demo_world 440) \<noteq> []"
    by code_simp
  have latest440: "strftime_ym (add_months (Max (set (series_months (normalize_series (monthly_series demo_world 440))))) 0)
                     = ''2024-07''"
    by code_simp
  note control = panel_anchor_determination [where ps = demo_summary and appid = 440 and w = demo_world]
  from control [THEN conjunct2, THEN conjunct1, rule_format, OF disjI2 [OF s440] row [of 440]]
  have 2: "treatment (game_rows demo_world demo_summary 440 ! 4) = 0
           \<and> row_month (game_rows demo_world demo_summary 440 ! 4) = Some ''2024-07''"
    using series440 by (simp add: rel latest440)
  have "summary_of demo_summary 730 = Some zero_summary"
    by code_simp
  then have s730: "\<exists>sm. summary_of demo_summary 730 = Some sm \<and> first_major_patch_date sm = None"
    by (simp add: zero_summary_def)
  have series730: "normalize_series (monthly_series demo_world 730) = []"
    by code_simp
  note noanchor = panel_anchor_determination [where ps = demo_summary and appid = 730 and w = demo_world]
  from noanchor [THEN conjunct2, THEN conjunct1, rule_format, OF disjI2 [OF s730] row [of 730]]
  have 3: "treatment (game_rows demo_world demo_summary 730 ! 4) = 0
           \<and> row_month (game_rows demo_world demo_summary 730 ! 4) = None
           \<and> avg_players (game_rows demo_world demo_summary 730 ! 4) = None
           \<and> peak_players (game_rows demo_world demo_summary 730 ! 4) = None"
    using series730 by simp
  have texts:
    "demo_parse (strftime_ymd_hms (mk_datetime 2024 3 5 0 53 20)) = Some (mk_datetime 2024 3 5 0 53 20)"
    "demo_parse (strftime_ymd_hms (mk_datetime 2024 6 1 0 0 0)) = Some (mk_datetime 2024 6 1 0 0 0)"
    "demo_parse (strftime_ymd_hms (mk_datetime 2024 8 30 6 40 0)) = Some (mk_datetime 2024 8 30 6 40 0)"
    "demo_parse (strftime_ymd_hms (mk_datetime 2020 9 13 12 26 40)) = Some (mk_datetime 2020 9 13 12 26 40)"
    by code_simp+
  have reads_back: "\<forall>t d. utcfromtimestamp demo_world t = Some d \<longrightarrow>
                      fromisoformat demo_world (strftime_ymd_hms d) = Some d"
    by (auto simp: demo_world_def demo_utcfromtimestamp_def texts split: if_splits)
  have has_date: "first_major_patch_date (summarize (collect_patches demo_world 570 (fetch_news_for_app demo_world 570)))
                    \<noteq> None"
    using first by (simp add: demo_patches_def)
  have row8: "game_rows demo_world demo_summary 570 ! 8 \<in> set (game_rows demo_world demo_summary 570)"
    by (rule nth_mem) (simp add: length_game_rows)
  have mem: "(570::int) \<in> set [570, 730, 440]"
    by simp
  from panel_anchor_determination
         [where w = demo_world and appid = 570 and appids = "[570, 730, 440]",
          THEN conjunct2, THEN conjunct2, THEN conjunct2, THEN conjunct2, rule_format,
          OF conjI [OF reads_back conjI [OF mem has_date]]]
  have all8: "\<forall>r \<in> set (game_rows demo_world demo_summary 570). treatment r = 1"
    unfolding demo_summary_def by blast
  have 4: "treatment (game_rows demo_world demo_summary 570 ! 8) = 1"
    using all8 row8 by (rule bspec)
  from 1 2 3 4 show ?thesis
    by simp
qed

lemma set_build_panel:
  "r \<in> set (build_panel w appids) \<Longrightarrow>
     \<exists>appid \<in> set appids. r \<in> set (game_rows w (fst (extract_patches_for_games w appids)) appid)"
  by (auto simp: build_panel_concat)

lemma treatment_event_date:
  assumes "r \<in> set (game_rows w ps appid)"
  shows "(treatment r = 1 \<longleftrightarrow> event_date r \<noteq> None) \<and> (treatment r = 0 \<or> treatment r = 1)"
  using game_rows_member(3,4) [OF assms]
  by (cases "extract_last_major_date w ps appid") simp_all

text \<open>
  C7. In every row of the panel, treatment is 1 exactly when event_date is not null (and
  is 0 otherwise); the rows of one game all have the same treatment and the same
  event_date; and event_date is set exactly for the games that have an event date, where
  it is the first of the event's month, so that it is null in every row of a control.
\<close>

theorem treatment_iff_event_date:
  "(\<forall>r \<in> set (build_panel w appids).
      (treatment r = 1 \<longleftrightarrow> event_date r \<noteq> None) \<and> (treatment r = 0 \<or> treatment r = 1))
   \<and> (\<forall>r \<in> set (game_rows w ps appid). \<forall>r' \<in> set (game_rows w ps appid).
         treatment r = treatment r' \<and> event_date r = event_date r')
   \<and> (\<forall>r \<in> set (game_rows w ps appid).
         (treatment r = 1 \<longleftrightarrow> extract_last_major_date w ps appid \<noteq> None)
         \<and> (extract_last_major_date w ps appid = None \<longrightarrow> treatment r = 0 \<and> event_date r = None)
         \<and> (\<forall>d. extract_last_major_date w ps appid = Some d \<longrightarrow>
                event_date r = Some (strftime_ymd (year d, month d))))"
proof (intro conjI ballI allI impI)
  fix r
  assume "r \<in> set (build_panel w appids)"
  then obtain appid where "r \<in> set (game_rows w (fst (extract_patches_for_games w appids)) appid)"
    using set_build_panel by blast
  from treatment_event_date [OF this]
  show "treatment r = 1 \<longleftrightarrow> event_date r \<noteq> None" and "treatment r = 0 \<or> treatment r = 1"
    by blast+
next
  fix r r'
  assume r: "r \<in> set (game_rows w ps appid)" and r': "r' \<in> set (game_rows w ps appid)"
  show "treatment r = treatment r'"
    by (simp only: game_rows_member(3) [OF r] game_rows_member(3) [OF r'])
  show "event_date r = event_date r'"
    by (simp only: game_rows_member(4) [OF r] game_rows_member(4) [OF r'])
next
  fix r
  assume r: "r \<in> set (game_rows w ps appid)"
  show "treatment r = 1 \<longleftrightarrow> extract_last_major_date w ps appid \<noteq> None"
    by (simp add: game_rows_member(3) [OF r])
  show "treatment r = 0" if "extract_last_major_date w ps appid = None"
    using that by (simp add: game_rows_member(3) [OF r])
  show "event_date r = None" if "extract_last_major_date w ps appid = None"
    using that by (simp add: game_rows_member(4) [OF r])
  show "event_date r = Some (strftime_ymd (year d, month d))"
    if "extract_last_major_date w ps appid = Some d" for d
    using that by (simp add: game_rows_member(4) [OF r] to_month_def)
qed

theorem treatment_iff_event_date_witness:
  "treatment (build_panel demo_world [570, 730, 440] ! 3) = 1
   \<and> event_date (build_panel demo_world [570, 730, 440] ! 3) = Some ''2024-03-01''
   \<and> treatment (build_panel demo_world [570, 730, 440] ! 12) = 0
   \<and> event_date (build_panel demo_world [570, 730, 440] ! 12) = None
   \<and> event_date (game_rows demo_world demo_summary 570 ! 0) = event_date (game_rows demo_world demo_summary 570 ! 8)"
proof -
  let ?p = "build_panel demo_world [570, 730, 440]"
  note t = treatment_iff_event_date [of demo_world "[570, 730, 440]" demo_summary 570]
  have len: "length ?p = 27"
    by (simp add: build_panel_concat length_game_rows)
  have in3: "?p ! 3 \<in> set ?p" and in12: "?p ! 12 \<in> set ?p"
    by (rule nth_mem, simp add: len)+
  have e3: "event_date (?p ! 3) = Some ''2024-03-01''"
    by code_simp
  have e12: "event_date (?p ! 12) = None"
    by code_simp
  from t in3 have "treatment (?p ! 3) = 1 \<longleftrightarrow> event_date (?p ! 3) \<noteq> None"
    by blast
  with e3 have 1: "treatment (?p ! 3) = 1"
    by simp
  from t in12 have "(treatment (?p ! 12) = 1 \<longleftrightarrow> event_date (?p ! 12) \<noteq> None)
                    \<and> (treatment (?p ! 12) = 0 \<or> treatment (?p ! 12) = 1)"
    by blast
  with e12 have 2: "treatment (?p ! 12) = 0"
    by auto
  have "game_rows demo_world demo_summary 570 ! 0 \<in> set (game_rows demo_world demo_summary 570)"
       "game_rows demo_world demo_summary 570 ! 8 \<in> set (game_rows demo_world demo_summary 570)"
    by (rule nth_mem, simp add: length_game_rows)+
  with t have 3: "event_date (game_rows demo_world demo_summary 570 ! 0)
                    = event_date (game_rows demo_world demo_summary 570 ! 8)"
    by blast
  from 1 2 3 e3 e12 show ?thesis
    by simp
qed

text \<open>
  C10. When the summary of a game carries a first_major_patch_date text that neither
  \<open>fromisoformat\<close> nor \<open>strptime\<close> with the format \<open>%Y-%m-%d %H:%M:%S\<close> can read,
  \<open>extract_last_major_date\<close> returns no date and the panel builder treats the game as a
  control: it still emits its nine rows, all with treatment 0 and a null event_date,
  whatever the summary says about major patches.
\<close>

theorem unparsable_date_is_control:
  "summary_of ps appid = Some sm \<and> first_major_patch_date sm = Some s
     \<and> fromisoformat w s = None \<and> strptime w s = None \<longrightarrow>
   extract_last_major_date w ps appid = None
   \<and> length (game_rows w ps appid) = 9
   \<and> (\<forall>r \<in> set (game_rows w ps appid). treatment r = 0 \<and> event_date r = None)"
proof (intro impI)
  assume h: "summary_of ps appid = Some sm \<and> first_major_patch_date sm = Some s
     \<and> fromisoformat w s = None \<and> strptime w s = None"
  then have fm: "extract_last_major_date w ps appid = None"
    by (simp add: extract_last_major_date_def parse_date_str_def)
  have "treatment r = 0 \<and> event_date r = None" if "r \<in> set (game_rows w ps appid)" for r
    using game_rows_member(3,4) [OF that] fm by simp
  with fm show "extract_last_major_date w ps appid = None
   \<and> length (game_rows w ps appid) = 9
   \<and> (\<forall>r \<in> set (game_rows w ps appid). treatment r = 0 \<and> event_date r = None)"
    by (simp add: length_game_rows)
qed

theorem unparsable_date_is_control_witness:
  "has_major_patch (the (summary_of demo_bad_summary 570))
   \<and> extract_last_major_date demo_world demo_bad_summary 570 = None
   \<and> treatment (game_rows demo_world demo_bad_summary 570 ! 4) = 0
   \<and> event_date (game_rows demo_world demo_bad_summary 570 ! 4) = None"
proof -
  let ?sm = "\<lparr>total_patches = 3, major_patches = 2, minor_patches = 1, has_major_patch = True,
         first_major_patch_date = Some ''5 March 2024'',
         last_patch_date = Some ''30 August 2024''\<rparr>"
  have sm: "summary_of demo_bad_summary 570 = Some ?sm"
    by code_simp
  have iso: "fromisoformat demo_world ''5 March 2024'' = None"
    by code_simp
  have strp: "strptime demo_world ''5 March 2024'' = None"
    by code_simp
  have hyp: "summary_of demo_bad_summary 570 = Some ?sm \<and> first_major_patch_date ?sm = Some ''5 March 2024''
     \<and> fromisoformat demo_world ''5 March 2024'' = None \<and> strptime demo_world ''5 March 2024'' = None"
    using sm iso strp by simp
  have row: "game_rows demo_world demo_bad_summary 570 ! 4 \<in> set (game_rows demo_world demo_bad_summary 570)"
    by (rule nth_mem) (simp add: length_game_rows)
  from unparsable_date_is_control [of demo_bad_summary 570 ?sm "''5 March 2024''" demo_world, rule_format, OF hyp]
  have "extract_last_major_date demo_world demo_bad_summary 570 = None
        \<and> (\<forall>r \<in> set (game_rows demo_world demo_bad_summary 570). treatment r = 0 \<and> event_date r = None)"
    by simp
  with row sm show ?thesis
    by auto
qed

end
